theory Spec2Isabelle
  imports Main "HOL-Library.Word"
begin

unbundle bit_operations_syntax

section \<open>Bytes, buffers and C strings\<close>

text \<open>
  The utility functions of \<^verbatim>\<open>lib/utils.c\<close> and \<^verbatim>\<open>lib/utils.h\<close> work on byte buffers
  through \<^verbatim>\<open>unsigned char *\<close> and \<^verbatim>\<open>char *\<close>.  A buffer is the list of its bytes; an
  access outside the list is undefined behaviour in C and is the value \<open>None\<close> here.
  \<^verbatim>\<open>size_t\<close> values are natural numbers; where the source subtracts, the wrap-around
  at \<open>SIZE_MAX + 1\<close> is written out (a 64-bit \<^verbatim>\<open>size_t\<close>).
\<close>

type_synonym byte = "8 word"

definition SIZE_MAX :: nat where
  "SIZE_MAX = 2 ^ 64 - 1"

definition size_t_sub :: "nat \<Rightarrow> nat \<Rightarrow> nat" where
  "size_t_sub a b = (a + (SIZE_MAX + 1) - b) mod (SIZE_MAX + 1)"

text \<open>The string a buffer holds: its bytes before the first NUL.\<close>

definition c_string :: "byte list \<Rightarrow> byte list" where
  "c_string buf = takeWhile (\<lambda>c. c \<noteq> 0) buf"

text \<open>
  The C library: \<^verbatim>\<open>strlen\<close> runs off the buffer when it holds no NUL;
  \<^verbatim>\<open>memcpy(dst, src, n)\<close> replaces the first \<open>n\<close> bytes of \<open>dst\<close> by those of \<open>src\<close>;
  \<^verbatim>\<open>buf[i] = v\<close> stores one byte.
\<close>

definition strlen :: "byte list \<Rightarrow> nat option" where
  "strlen s = (if 0 \<in> set s then Some (length (c_string s)) else None)"

definition memcpy :: "byte list \<Rightarrow> byte list \<Rightarrow> nat \<Rightarrow> byte list option" where
  "memcpy dst src n =
     (if n \<le> length src \<and> n \<le> length dst then Some (take n src @ drop n dst) else None)"

definition store_byte :: "byte list \<Rightarrow> nat \<Rightarrow> byte \<Rightarrow> byte list option" where
  "store_byte buf i v = (if i < length buf then Some (buf[i := v]) else None)"

subsection \<open>\<^verbatim>\<open>memcmp_constant_time\<close> (utils.c)\<close>

text \<open>
  \<^verbatim>\<open>for (i = 0, a = s1, b = s2; i < n; i++) ret |= (*a++ ^ *b++); return ret;\<close>
  The pointers \<open>a\<close> and \<open>b\<close> advance with \<open>i\<close>, so both read index \<open>i\<close>.  \<open>ret\<close> is an
  \<^verbatim>\<open>unsigned char\<close>; the function returns it as an \<^verbatim>\<open>int\<close>.
\<close>

function memcmp_constant_time_loop ::
  "byte list \<Rightarrow> byte list \<Rightarrow> nat \<Rightarrow> nat \<Rightarrow> byte \<Rightarrow> byte option" where
  "memcmp_constant_time_loop s1 s2 n i ret =
     (if i < n then
        (if i < length s1 \<and> i < length s2
         then memcmp_constant_time_loop s1 s2 n (i + 1) (ret OR (s1 ! i XOR s2 ! i))
         else None)
      else Some ret)"
  by pat_completeness auto
termination
  by (relation "measure (\<lambda>(s1, s2, n, i, ret). n - i)") auto

declare memcmp_constant_time_loop.simps [simp del]

definition memcmp_constant_time :: "byte list \<Rightarrow> byte list \<Rightarrow> nat \<Rightarrow> int option" where
  "memcmp_constant_time s1 s2 n = map_option uint (memcmp_constant_time_loop s1 s2 n 0 0)"

subsection \<open>\<^verbatim>\<open>strcpy_safe_impl\<close> (utils.h)\<close>

text \<open>
  \<^verbatim>\<open>size_t str_len = strlen(src);\<close>
  \<^verbatim>\<open>memcpy(dst, src, str_len < len ? str_len + 1 : len - 1);\<close>
  \<^verbatim>\<open>dst[len - 1] = '\0';\<close>
  The result is the buffer \<open>dst\<close> after the call.
\<close>

definition strcpy_safe_impl :: "byte list \<Rightarrow> byte list \<Rightarrow> nat \<Rightarrow> byte list option" where
  "strcpy_safe_impl dst src len =
     (case strlen src of
        None \<Rightarrow> None
      | Some str_len \<Rightarrow>
          (case memcpy dst src (if str_len < len then str_len + 1 else size_t_sub len 1) of
             None \<Rightarrow> None
           | Some dst1 \<Rightarrow> store_byte dst1 (size_t_sub len 1) 0))"

subsection \<open>\<^verbatim>\<open>in_csum\<close> (utils.c), both conditionally compiled variants\<close>

text \<open>
  Both variants read the buffer in 16-bit units in the byte order of the host, which is a
  parameter here (\<open>little_endian\<close>).  \<open>load16\<close> is the 16-bit object at a byte offset,
  \<open>load8\<close> one byte, and \<^verbatim>\<open>htons\<close> swaps the two bytes on a little-endian host.  The sums
  are \<^verbatim>\<open>uint32_t\<close> and wrap around.
\<close>

definition load16 :: "bool \<Rightarrow> byte list \<Rightarrow> nat \<Rightarrow> 16 word option" where
  "load16 little_endian m off =
     (if off + 1 < length m then
        Some (if little_endian
              then push_bit 8 (ucast (m ! (off + 1))) OR ucast (m ! off)
              else push_bit 8 (ucast (m ! off)) OR ucast (m ! (off + 1)))
      else None)"

definition load8 :: "byte list \<Rightarrow> nat \<Rightarrow> byte option" where
  "load8 m off = (if off < length m then Some (m ! off) else None)"

definition htons :: "bool \<Rightarrow> 16 word \<Rightarrow> 16 word" where
  "htons little_endian x = (if little_endian then push_bit 8 x OR drop_bit 8 x else x)"

text \<open>
  The variant under \<^verbatim>\<open>USE_MEMCPY_FOR_ALIASING\<close>: \<open>b_addr\<close> is a byte pointer (here the
  offset from \<open>addr\<close>), advanced by \<^verbatim>\<open>sizeof(w16)\<close>; the parameter \<open>csum\<close> itself is the
  accumulator.
  \<^verbatim>\<open>while (nleft > 1) { memcpy(&w16, b_addr, sizeof(w16)); csum += w16;\<close>
  \<^verbatim>\<open>                     b_addr += sizeof(w16); nleft -= sizeof(w16); }\<close>
\<close>

function in_csum_memcpy_loop ::
  "bool \<Rightarrow> byte list \<Rightarrow> nat \<Rightarrow> nat \<Rightarrow> 32 word \<Rightarrow> (nat \<times> nat \<times> 32 word) option" where
  "in_csum_memcpy_loop le addr b_addr nleft csum =
     (if 1 < nleft then
        (case load16 le addr b_addr of
           None \<Rightarrow> None
         | Some w16 \<Rightarrow> in_csum_memcpy_loop le addr (b_addr + 2) (nleft - 2) (csum + ucast w16))
      else Some (b_addr, nleft, csum))"
  by pat_completeness auto
termination
  by (relation "measure (\<lambda>(le, addr, b_addr, nleft, csum). nleft)") auto

declare in_csum_memcpy_loop.simps [simp del]

text \<open>
  After the loop: \<^verbatim>\<open>if (nleft == 1) csum += htons(*b_addr << 8);\<close>
  \<^verbatim>\<open>if (acc) *acc = csum;\<close>
  \<^verbatim>\<open>csum = (csum >> 16) + (csum & 0xffff); csum += (csum >> 16); return ~csum & 0xffff;\<close>
  The argument \<open>acc\<close> is \<open>None\<close> for a null pointer and the cell's old value otherwise; the
  result is the returned checksum and the cell afterwards.
\<close>

definition in_csum_memcpy ::
  "bool \<Rightarrow> byte list \<Rightarrow> nat \<Rightarrow> 32 word \<Rightarrow> 32 word option \<Rightarrow> (16 word \<times> 32 word option) option" where
  "in_csum_memcpy le addr len csum acc =
     (case in_csum_memcpy_loop le addr 0 len csum of
        None \<Rightarrow> None
      | Some (b_addr, nleft, csum1) \<Rightarrow>
          (case (if nleft = 1
                 then map_option (\<lambda>b. csum1 + ucast (htons le (push_bit 8 (ucast b))))
                        (load8 addr b_addr)
                 else Some csum1) of
             None \<Rightarrow> None
           | Some csum2 \<Rightarrow>
               (let acc' = (case acc of None \<Rightarrow> None | Some old \<Rightarrow> Some csum2);
                    csum3 = drop_bit 16 csum2 + (csum2 AND 0xffff);
                    csum4 = csum3 + drop_bit 16 csum3
                in Some (ucast (NOT csum4 AND 0xffff), acc'))))"

text \<open>
  The other variant: \<open>w\<close> is a pointer to \<^verbatim>\<open>uint16_t\<close> (\<^verbatim>\<open>may_alias\<close>), here the index
  of the 16-bit unit, so that \<^verbatim>\<open>*w++\<close> reads at byte offset \<open>2 * w\<close>; the accumulator is
  the local \<^verbatim>\<open>sum\<close>, and the result goes through the local \<^verbatim>\<open>answer\<close>.
  \<^verbatim>\<open>while (nleft > 1) { sum += *w++; nleft -= 2; }\<close>
  \<^verbatim>\<open>if (nleft == 1) sum += htons(*PTR_CAST_CONST(u_char, w) << 8);\<close>
\<close>

function in_csum_alias_loop ::
  "bool \<Rightarrow> byte list \<Rightarrow> nat \<Rightarrow> nat \<Rightarrow> 32 word \<Rightarrow> (nat \<times> nat \<times> 32 word) option" where
  "in_csum_alias_loop le addr w nleft sum32 =
     (if 1 < nleft then
        (case load16 le addr (2 * w) of
           None \<Rightarrow> None
         | Some v \<Rightarrow> in_csum_alias_loop le addr (w + 1) (nleft - 2) (sum32 + ucast v))
      else Some (w, nleft, sum32))"
  by pat_completeness auto
termination
  by (relation "measure (\<lambda>(le, addr, w, nleft, sum32). nleft)") auto

declare in_csum_alias_loop.simps [simp del]

definition in_csum_alias ::
  "bool \<Rightarrow> byte list \<Rightarrow> nat \<Rightarrow> 32 word \<Rightarrow> 32 word option \<Rightarrow> (16 word \<times> 32 word option) option" where
  "in_csum_alias le addr len csum acc =
     (case in_csum_alias_loop le addr 0 len csum of
        None \<Rightarrow> None
      | Some (w, nleft, sum1) \<Rightarrow>
          (case (if nleft = 1
                 then map_option (\<lambda>b. sum1 + ucast (htons le (push_bit 8 (ucast b))))
                        (load8 addr (2 * w))
                 else Some sum1) of
             None \<Rightarrow> None
           | Some sum2 \<Rightarrow>
               (let acc' = (case acc of None \<Rightarrow> None | Some old \<Rightarrow> Some sum2);
                    sum3 = drop_bit 16 sum2 + (sum2 AND 0xffff);
                    sum4 = sum3 + drop_bit 16 sum3;
                    answer = (ucast (NOT sum4 AND 0xffff) :: 16 word)
                in Some (answer, acc'))))"

subsection \<open>\<^verbatim>\<open>set_tmp_dir\<close> and \<^verbatim>\<open>make_tmp_filename\<close> (utils.c)\<close>

text \<open>
  Strings of the environment are \<^typ>\<open>string\<close>s, the characters before the terminating
  NUL.  The process environment is a map from names to values; \<^verbatim>\<open>getenv\<close> is a NULL
  pointer (\<open>None\<close>) for a name that is not set.  \<^verbatim>\<open>tmp_dir[0]\<close> of an empty string is its
  terminating NUL.  \<^verbatim>\<open>KA_TMP_DIR\<close> comes from the build configuration and is a parameter.
\<close>

definition NUL :: char where
  "NUL = CHR 0x00"

definition getenv :: "(string \<rightharpoonup> string) \<Rightarrow> string \<Rightarrow> string option" where
  "getenv environ name = environ name"

definition first_char :: "string \<Rightarrow> char" where
  "first_char s = (case s of [] \<Rightarrow> NUL | c # cs \<Rightarrow> c)"

text \<open>
  \<^verbatim>\<open>if (!(tmp_dir = getenv("TMPDIR")) || tmp_dir[0] != '/') tmp_dir = KA_TMP_DIR;\<close>
  The result is the new value of the global \<^verbatim>\<open>tmp_dir\<close>.
\<close>

definition set_tmp_dir :: "string \<Rightarrow> (string \<rightharpoonup> string) \<Rightarrow> string" where
  "set_tmp_dir KA_TMP_DIR environ =
     (case getenv environ ''TMPDIR'' of
        None \<Rightarrow> KA_TMP_DIR
      | Some tmp_dir \<Rightarrow> if first_char tmp_dir \<noteq> CHR ''/'' then KA_TMP_DIR else tmp_dir)"

text \<open>
  \<^verbatim>\<open>MALLOC(n)\<close>, the allocator of the repository (not among the sources), gives a
  buffer of \<open>n\<close> bytes, here of NULs; \<^verbatim>\<open>make_tmp_filename\<close> overwrites every byte of it.
  \<^verbatim>\<open>strcpy(buf + off, s)\<close> writes the characters of \<open>s\<close> and a NUL from offset \<open>off\<close> on;
  \<^verbatim>\<open>buf[i] = c\<close> stores a character.
\<close>

definition MALLOC :: "nat \<Rightarrow> string" where
  "MALLOC n = replicate n NUL"

definition strcpy :: "string \<Rightarrow> nat \<Rightarrow> string \<Rightarrow> string option" where
  "strcpy buf off s =
     (if off + length s + 1 \<le> length buf
      then Some (take off buf @ s @ [NUL] @ drop (off + length s + 1) buf)
      else None)"

definition store_char :: "string \<Rightarrow> nat \<Rightarrow> char \<Rightarrow> string option" where
  "store_char buf i c = (if i < length buf then Some (buf[i := c]) else None)"

text \<open>
  \<^verbatim>\<open>size_t tmp_dir_len = strlen(tmp_dir);\<close>
  \<^verbatim>\<open>char *path = MALLOC(tmp_dir_len + 1 + strlen(file_name) + 1);\<close>
  \<^verbatim>\<open>strcpy(path, tmp_dir); path[tmp_dir_len] = '/';\<close>
  \<^verbatim>\<open>strcpy(path + tmp_dir_len + 1, file_name); return path;\<close>
  The global \<^verbatim>\<open>tmp_dir\<close> is \<open>None\<close> while it is a null pointer (before
  \<^verbatim>\<open>set_tmp_dir\<close>).  The result is the string the returned buffer holds.
\<close>

definition make_tmp_filename :: "string option \<Rightarrow> string \<Rightarrow> string option" where
  "make_tmp_filename tmp_dir file_name =
     (case tmp_dir of
        None \<Rightarrow> None
      | Some dir \<Rightarrow>
          (let tmp_dir_len = length dir;
               path = MALLOC (tmp_dir_len + 1 + length file_name + 1)
           in case strcpy path 0 dir of
                None \<Rightarrow> None
              | Some path1 \<Rightarrow>
                  (case store_char path1 tmp_dir_len CHR ''/'' of
                     None \<Rightarrow> None
                   | Some path2 \<Rightarrow>
                       (case strcpy path2 (tmp_dir_len + 1) file_name of
                          None \<Rightarrow> None
                        | Some path3 \<Rightarrow> Some (takeWhile (\<lambda>c. c \<noteq> NUL) path3)))))"

section \<open>The BFD child process (\<^verbatim>\<open>bfd_daemon.c\<close>)\<close>

text \<open>
  \<^verbatim>\<open>bfd_daemon.c\<close> works on the globals of the process and calls into the kernel and into
  files of the repository that are not among the sources (the scheduler, the signal
  layer, the parser, the pidfile and the logger).  The globals it reads and writes are
  the fields of a record; each function takes the process state and returns what becomes
  of it.
\<close>

subsection \<open>What a call can end in\<close>

text \<open>
  A function returns (\<open>Return\<close>), or the process ends inside it: by \<^verbatim>\<open>exit(status)\<close>
  (\<open>Exit\<close>) or by dereferencing a null pointer (\<open>Segv\<close>).
\<close>

datatype 'a outcome = Exit int | Segv | Return 'a

subsection \<open>Build options\<close>

text \<open>
  The preprocessor symbols \<^verbatim>\<open>_WITH_VRRP_\<close>, \<^verbatim>\<open>_WITH_LVS_\<close>, \<^verbatim>\<open>_ONE_PROCESS_DEBUG_\<close> and
  \<^verbatim>\<open>THREAD_DUMP\<close> select code in the functions below.
\<close>

record build =
  with_vrrp :: bool
  with_lvs :: bool
  one_process_debug :: bool
  thread_dump :: bool

subsection \<open>Kernel objects: file descriptors, pipes, signals\<close>

text \<open>
  The descriptor table of the process maps a descriptor to the object it refers to and
  the flags it was opened with.  A pipe has an identity, a read end and a write end.
\<close>

datatype open_flag = O_CLOEXEC | O_NONBLOCK

datatype fd_object = Pipe_read nat | Pipe_write nat | Other_file

type_synonym fd_table = "int \<rightharpoonup> fd_object \<times> open_flag set"

text \<open>
  What the kernel answers to \<^verbatim>\<open>pipe2\<close>: an error, or the two new descriptors (read end
  first) of a new pipe.
\<close>

datatype pipe2_reply = Pipe2_failed | Pipe2_ok int int nat

datatype write_result = Write_ok nat | Write_EAGAIN | Write_blocks

datatype signal =
  SIGHUP | SIGINT | SIGTERM | SIGUSR1 | SIGPIPE | SIGCHLD | SIGTDUMP | SIG_other nat

text \<open>The functions that \<^verbatim>\<open>bfd_daemon.c\<close> registers as signal handlers.\<close>

datatype sighandler =
  Sigreload_bfd | Sigend_bfd | Sigdump_bfd | Thread_dump_signal | Thread_child_handler

datatype disposition = SIG_DFL | SIG_IGN | Handler sighandler

subsection \<open>Scheduler events, debug bits, configuration\<close>

text \<open>
  The functions that \<^verbatim>\<open>bfd_daemon.c\<close> hands to the scheduler, and the events queued on a
  thread master.
\<close>

datatype thread_func = Bfd_dispatcher_init | Reload_bfd_thread | Print_bfd_thread

datatype thread_event = Thread_event thread_func | Terminate_event

text \<open>The bits of the global \<^verbatim>\<open>debug\<close> that the functions below test.\<close>

datatype debug_bit = CONFIG_TEST_BIT | DUMP_CONF_BIT | NO_SYSLOG_BIT

text \<open>
  \<^verbatim>\<open>get_config_status()\<close> is \<^verbatim>\<open>CONFIG_OK\<close> or another value of its enumeration.
\<close>

datatype config_status = CONFIG_OK | CONFIG_ERROR nat

text \<open>
  The fields of \<^verbatim>\<open>data_t\<close> (the global data) that \<^verbatim>\<open>bfd_daemon.c\<close> reads and that
  matter for the control flow and the state modelled here.  The BFD data (\<^verbatim>\<open>bfd_data_t\<close>,
  declared in \<^verbatim>\<open>bfd_data.h\<close>) is a type parameter \<open>'b\<close>.
\<close>

record data_t =
  reload_check_config :: bool
  bfd_process_name :: "string option"
  instance_name :: "string option"
  network_namespace :: "string option"

subsection \<open>The process state\<close>

text \<open>
  The globals: the two event pipes (\<^verbatim>\<open>int [2]\<close>, initially \<^verbatim>\<open>{-1, -1}\<close>), the current
  and the previous configuration (pointers, \<open>None\<close> for NULL), the \<^verbatim>\<open>reload\<close> flag set
  by \<^verbatim>\<open>SET_RELOAD\<close> and cleared by \<^verbatim>\<open>UNSET_RELOAD\<close>, the \<^verbatim>\<open>debug\<close> bits, the thread
  master with its queue of events (\<open>None\<close> for a NULL master), and \<^verbatim>\<open>ignore_sigint\<close>.
  Of the kernel's view of the process: its descriptor table, the disposition of each
  signal, the signals sent to it and not yet handled, and the lines it has logged.
\<close>

record 'b process =
  fds :: fd_table
  bfd_vrrp_event_pipe :: "int \<times> int"
  bfd_checker_event_pipe :: "int \<times> int"
  global_data :: "data_t option"
  bfd_data :: "'b option"
  old_global_data :: "data_t option"
  old_bfd_data :: "'b option"
  reload :: bool
  debug :: "debug_bit set"
  master :: "thread_event list option"
  signal_handlers :: "signal \<Rightarrow> disposition"
  ignore_sigint :: bool
  pending_signals :: "signal list"
  syslog :: "string list"

subsection \<open>The environment of a call\<close>

text \<open>
  What the kernel and the files that are not among the sources answer is a parameter of
  each function: the result of \<^verbatim>\<open>fork()\<close>; whether \<^verbatim>\<open>getppid()\<close> is still
  \<^verbatim>\<open>main_pid\<close>; whether \<^verbatim>\<open>pidfile_write\<close> succeeds; the data \<^verbatim>\<open>alloc_global_data\<close> and
  \<^verbatim>\<open>alloc_bfd_data\<close> return (the latter may be NULL); what \<^verbatim>\<open>init_data\<close> (the parser)
  makes of the global data and of the fresh BFD data; what \<^verbatim>\<open>init_global_data\<close> makes of
  the new global data given the previous one; the status \<^verbatim>\<open>get_config_status()\<close> reports
  after parsing; and what a run of the scheduler, \<^verbatim>\<open>launch_thread_scheduler(master)\<close>,
  ends in.
\<close>

record 'b env =
  fork_result :: int
  parent_is_main_pid :: bool
  pidfile_write_ok :: bool
  alloc_global_data :: data_t
  alloc_bfd_data :: "'b option"
  init_data_global :: "data_t \<Rightarrow> data_t"
  init_data_bfd :: "'b \<Rightarrow> 'b"
  init_global_data :: "data_t \<Rightarrow> data_t option \<Rightarrow> data_t"
  get_config_status :: config_status
  launch_thread_scheduler :: "'b process \<Rightarrow> 'b process outcome"

subsection \<open>Exit codes\<close>

text \<open>\<^verbatim>\<open>EXIT_SUCCESS\<close> of the C library.\<close>

definition EXIT_SUCCESS :: int where
  "EXIT_SUCCESS = 0"

text \<open>
  Modelled from the spec: the macros \<^verbatim>\<open>KEEPALIVED_EXIT_FATAL\<close> and
  \<^verbatim>\<open>KEEPALIVED_EXIT_CONFIG\<close> are used by \<^verbatim>\<open>start_bfd\<close> and defined in a header that is not
  among the sources.  The spec gives the exit codes as
  ``\<^verbatim>\<open>0=clean\<close>, \<^verbatim>\<open>2=config-error\<close>, \<^verbatim>\<open>1=fatal\<close>''.
\<close>

definition KEEPALIVED_EXIT_FATAL :: int where
  "KEEPALIVED_EXIT_FATAL = 1"

definition KEEPALIVED_EXIT_CONFIG :: int where
  "KEEPALIVED_EXIT_CONFIG = 2"

subsection \<open>The kernel\<close>

text \<open>
  \<^verbatim>\<open>pipe2(pipefd, flags)\<close>: on an error it returns -1 and leaves the array alone; otherwise
  it returns 0, stores the two descriptors in the array, and both descriptors are open
  with \<open>flags\<close>.
\<close>

definition pipe2 ::
  "pipe2_reply \<Rightarrow> open_flag set \<Rightarrow> fd_table \<Rightarrow> int \<times> int
     \<Rightarrow> int \<times> (int \<times> int) \<times> fd_table" where
  "pipe2 reply flags t pipefd =
     (case reply of
        Pipe2_failed \<Rightarrow> (- 1, pipefd, t)
      | Pipe2_ok r w p \<Rightarrow>
          (0, (r, w), t(r \<mapsto> (Pipe_read p, flags), w \<mapsto> (Pipe_write p, flags))))"

text \<open>\<^verbatim>\<open>close(fd)\<close>: the descriptor is no longer open (an error changes nothing).\<close>

definition close_fd :: "int \<Rightarrow> 'b process \<Rightarrow> 'b process" where
  "close_fd fd s = s\<lparr>fds := (fds s)(fd := None)\<rparr>"

text \<open>
  \<^verbatim>\<open>write\<close> of \<open>n\<close> bytes (at most \<^verbatim>\<open>PIPE_BUF\<close>) to a pipe with room for \<open>room\<close> bytes,
  through a descriptor with the given flags, as pipe(7) describes it: without room the
  call fails with \<^verbatim>\<open>EAGAIN\<close> when \<^verbatim>\<open>O_NONBLOCK\<close> is set and blocks otherwise.
\<close>

definition pipe_write :: "open_flag set \<Rightarrow> nat \<Rightarrow> nat \<Rightarrow> write_result" where
  "pipe_write flags room n =
     (if n \<le> room then Write_ok n
      else if O_NONBLOCK \<in> flags then Write_EAGAIN
      else Write_blocks)"

text \<open>\<^verbatim>\<open>kill(our_pid, sig)\<close>: the signal is sent to the process itself.\<close>

definition kill :: "signal \<Rightarrow> 'b process \<Rightarrow> 'b process" where
  "kill sig s = s\<lparr>pending_signals := pending_signals s @ [sig]\<rparr>"

subsection \<open>The scheduler, the signal layer and the logger\<close>

text \<open>
  Modelled from the spec: \<^verbatim>\<open>thread_add_event\<close>, \<^verbatim>\<open>thread_add_terminate_event\<close>,
  \<^verbatim>\<open>thread_cleanup_master\<close> with \<^verbatim>\<open>thread_add_base_threads\<close>, and
  \<^verbatim>\<open>thread_destroy_master\<close> with \<^verbatim>\<open>thread_make_master\<close> are functions of the scheduler,
  which is not among the sources.  The spec: ``signals (terminate, reload) are converted to
  loop events and processed between handlers''; the loop ``multiplexes [...]
  signal-delivered events (reload/dump/terminate)''.  An event is added at the end of the
  master's queue; cleaning up the master and making a new one leave an empty queue.  The
  first three dereference the master, so a NULL master ends the process.
\<close>

definition thread_add_event :: "thread_func \<Rightarrow> 'b process \<Rightarrow> 'b process outcome" where
  "thread_add_event func s =
     (case master s of
        None \<Rightarrow> Segv
      | Some q \<Rightarrow> Return (s\<lparr>master := Some (q @ [Thread_event func])\<rparr>))"

definition thread_add_terminate_event :: "'b process \<Rightarrow> 'b process outcome" where
  "thread_add_terminate_event s =
     (case master s of
        None \<Rightarrow> Segv
      | Some q \<Rightarrow> Return (s\<lparr>master := Some (q @ [Terminate_event])\<rparr>))"

definition thread_cleanup_master :: "'b process \<Rightarrow> 'b process outcome" where
  "thread_cleanup_master s =
     (case master s of
        None \<Rightarrow> Segv
      | Some q \<Rightarrow> Return (s\<lparr>master := Some []\<rparr>))"

definition thread_make_master :: "'b process \<Rightarrow> 'b process" where
  "thread_make_master s = s\<lparr>master := Some []\<rparr>"

text \<open>
  Modelled from the spec: \<^verbatim>\<open>signal_set\<close> and \<^verbatim>\<open>signal_ignore\<close> are functions of the signal
  layer, which is not among the sources.  The spec: ``Signals: \<^verbatim>\<open>SIGHUP=reload\<close>,
  \<^verbatim>\<open>SIGTERM=graceful stop\<close>, \<^verbatim>\<open>SIGUSR1=dump state to log\<close>''.  \<^verbatim>\<open>signal_set(sig, func, v)\<close>
  makes \<open>func\<close> the handler of \<open>sig\<close>; \<^verbatim>\<open>signal_ignore(sig)\<close> has \<open>sig\<close> ignored.
\<close>

definition signal_set :: "signal \<Rightarrow> sighandler \<Rightarrow> 'b process \<Rightarrow> 'b process" where
  "signal_set sig func s = s\<lparr>signal_handlers := (signal_handlers s)(sig := Handler func)\<rparr>"

definition signal_ignore :: "signal \<Rightarrow> 'b process \<Rightarrow> 'b process" where
  "signal_ignore sig s = s\<lparr>signal_handlers := (signal_handlers s)(sig := SIG_IGN)\<rparr>"

text \<open>
  Modelled from the spec: \<^verbatim>\<open>log_message\<close> is a function of the logger, which is not among
  the sources.  The spec: ``The daemon logs and exits''.  A call adds its format string
  to the lines logged.
\<close>

definition log_message :: "string \<Rightarrow> 'b process \<Rightarrow> 'b process" where
  "log_message msg s = s\<lparr>syslog := syslog s @ [msg]\<rparr>"

subsection \<open>\<^verbatim>\<open>open_pipe\<close> (utils.c) and \<^verbatim>\<open>open_bfd_pipes\<close>\<close>

text \<open>
  \<^verbatim>\<open>if (pipe2(pipe_arr, O_CLOEXEC | O_NONBLOCK) == -1) return -1; return 0;\<close>
  The result is the returned value, the array and the descriptor table afterwards.
\<close>

definition open_pipe ::
  "pipe2_reply \<Rightarrow> fd_table \<Rightarrow> int \<times> int \<Rightarrow> int \<times> (int \<times> int) \<times> fd_table" where
  "open_pipe reply t pipe_arr =
     (case pipe2 reply {O_CLOEXEC, O_NONBLOCK} t pipe_arr of
        (ret, pipe_arr', t') \<Rightarrow> if ret = - 1 then (- 1, pipe_arr', t') else (0, pipe_arr', t'))"

text \<open>
  \<^verbatim>\<open>open_bfd_pipes\<close>: under \<^verbatim>\<open>_WITH_VRRP_\<close> it opens \<^verbatim>\<open>bfd_vrrp_event_pipe\<close>, under
  \<^verbatim>\<open>_WITH_LVS_\<close> then \<^verbatim>\<open>bfd_checker_event_pipe\<close>; a failure is logged and returns
  \<^verbatim>\<open>false\<close> at once.  The two replies are the kernel's to the two calls of \<^verbatim>\<open>pipe2\<close>.
\<close>

definition open_bfd_pipes ::
  "build \<Rightarrow> pipe2_reply \<Rightarrow> pipe2_reply \<Rightarrow> 'b process \<Rightarrow> bool \<times> 'b process" where
  "open_bfd_pipes b reply_vrrp reply_checker s =
     (let (r1, s1) =
            (if with_vrrp b then
               (case open_pipe reply_vrrp (fds s) (bfd_vrrp_event_pipe s) of
                  (ret, arr, t) \<Rightarrow> (ret, s\<lparr>fds := t, bfd_vrrp_event_pipe := arr\<rparr>))
             else (0, s))
      in if with_vrrp b \<and> r1 = - 1
         then (False, log_message ''Unable to create BFD vrrp event pipe: %m'' s1)
         else
           (let (r2, s2) =
                  (if with_lvs b then
                     (case open_pipe reply_checker (fds s1) (bfd_checker_event_pipe s1) of
                        (ret, arr, t) \<Rightarrow> (ret, s1\<lparr>fds := t, bfd_checker_event_pipe := arr\<rparr>))
                   else (0, s1))
            in if with_lvs b \<and> r2 = - 1
               then (False, log_message ''Unable to create BFD checker event pipe: %m'' s2)
               else (True, s2)))"

subsection \<open>\<^verbatim>\<open>stop_bfd\<close> and \<^verbatim>\<open>start_bfd\<close>\<close>

text \<open>
  \<^verbatim>\<open>stop_bfd(status)\<close> returns at once under \<^verbatim>\<open>CONFIG_TEST_BIT\<close>; otherwise it removes the
  pidfile, frees the data and ends the process with \<^verbatim>\<open>exit(status)\<close>.
\<close>

definition stop_bfd :: "int \<Rightarrow> 'b process \<Rightarrow> 'b process outcome" where
  "stop_bfd status s = (if CONFIG_TEST_BIT \<in> debug s then Return s else Exit status)"

text \<open>
  \<^verbatim>\<open>start_bfd(prev_global_data)\<close>, in the order of the source:
  \<^item> \<^verbatim>\<open>if (reload) global_data = alloc_global_data();\<close>
  \<^item> \<^verbatim>\<open>if (!(bfd_data = alloc_bfd_data())) { stop_bfd(KEEPALIVED_EXIT_FATAL); return; }\<close>
  \<^item> \<^verbatim>\<open>init_data(conf_file, bfd_init_keywords, false);\<close> parses the configuration into the
    global data and the BFD data;
  \<^item> \<^verbatim>\<open>if (reload) init_global_data(global_data, prev_global_data, true);\<close>
  \<^item> the process name is updated, which reads \<^verbatim>\<open>global_data->bfd_process_name\<close>;
  \<^item> \<^verbatim>\<open>if (__test_bit(CONFIG_TEST_BIT, &debug)) return;\<close>
  \<^item> unless \<^verbatim>\<open>_ONE_PROCESS_DEBUG_\<close>:
    \<^verbatim>\<open>if (global_data->reload_check_config && get_config_status() != CONFIG_OK)\<close>
    \<^verbatim>\<open>{ stop_bfd(KEEPALIVED_EXIT_CONFIG); return; }\<close>
  \<^item> \<^verbatim>\<open>thread_add_event(master, bfd_dispatcher_init, bfd_data, 0);\<close>
  The calls that touch nothing of the state above (the random seed, the packet buffer,
  \<^verbatim>\<open>bfd_complete_init\<close>, the notification of the parent, the dump, priorities and CPU
  affinity) are left out.
\<close>

definition start_bfd ::
  "build \<Rightarrow> 'b env \<Rightarrow> data_t option \<Rightarrow> 'b process \<Rightarrow> 'b process outcome" where
  "start_bfd b e prev_global_data s =
     (let s1 = (if reload s then s\<lparr>global_data := Some (alloc_global_data e)\<rparr> else s) in
      case alloc_bfd_data e of
        None \<Rightarrow> stop_bfd KEEPALIVED_EXIT_FATAL (s1\<lparr>bfd_data := None\<rparr>)
      | Some fresh \<Rightarrow>
          (let s2 = s1\<lparr>bfd_data := Some fresh\<rparr>;
               s3 = s2\<lparr>bfd_data := map_option (init_data_bfd e) (bfd_data s2),
                       global_data := map_option (init_data_global e) (global_data s2)\<rparr>;
               s4 = (if reload s3
                     then s3\<lparr>global_data :=
                            map_option (\<lambda>g. init_global_data e g prev_global_data) (global_data s3)\<rparr>
                     else s3)
           in case global_data s4 of
                None \<Rightarrow> Segv
              | Some g \<Rightarrow>
                  if CONFIG_TEST_BIT \<in> debug s4 then Return s4
                  else if \<not> one_process_debug b \<and> reload_check_config g \<and>
                          get_config_status e \<noteq> CONFIG_OK
                  then stop_bfd KEEPALIVED_EXIT_CONFIG s4
                  else thread_add_event Bfd_dispatcher_init s4))"

definition bfd_validate_config :: "build \<Rightarrow> 'b env \<Rightarrow> 'b process \<Rightarrow> 'b process outcome" where
  "bfd_validate_config b e s = start_bfd b e None s"

subsection \<open>The signal handlers and \<^verbatim>\<open>bfd_signal_init\<close>\<close>

text \<open>
  \<^verbatim>\<open>sigreload_bfd\<close>: \<^verbatim>\<open>thread_add_event(master, reload_bfd_thread, NULL, 0);\<close>
  \<^verbatim>\<open>sigdump_bfd\<close>: a \<^verbatim>\<open>log_message\<close>, then
  \<^verbatim>\<open>thread_add_event(master, print_bfd_thread, NULL, 0);\<close>
  \<^verbatim>\<open>sigend_bfd\<close>: \<^verbatim>\<open>if (master) thread_add_terminate_event(master);\<close>
\<close>

definition sigreload_bfd :: "'b process \<Rightarrow> 'b process outcome" where
  "sigreload_bfd s = thread_add_event Reload_bfd_thread s"

definition sigdump_bfd :: "'b process \<Rightarrow> 'b process outcome" where
  "sigdump_bfd s =
     thread_add_event Print_bfd_thread
       (log_message ''Printing BFD data for process(%d) on signal'' s)"

definition sigend_bfd :: "'b process \<Rightarrow> 'b process outcome" where
  "sigend_bfd s = (case master s of None \<Rightarrow> Return s | Some q \<Rightarrow> thread_add_terminate_event s)"

text \<open>
  Calling a registered handler calls the function of that name; the two handlers that
  are not functions of \<^verbatim>\<open>bfd_daemon.c\<close> are not followed.
\<close>

fun call_handler :: "sighandler \<Rightarrow> 'b process \<Rightarrow> 'b process outcome" where
  "call_handler Sigreload_bfd s = sigreload_bfd s"
| "call_handler Sigend_bfd s = sigend_bfd s"
| "call_handler Sigdump_bfd s = sigdump_bfd s"
| "call_handler Thread_dump_signal s = Return s"
| "call_handler Thread_child_handler s = Return s"

text \<open>
  \<^verbatim>\<open>signal_set(SIGHUP, sigreload_bfd, NULL);\<close>
  \<^verbatim>\<open>if (ignore_sigint) signal_ignore(SIGINT); else signal_set(SIGINT, sigend_bfd, NULL);\<close>
  \<^verbatim>\<open>signal_set(SIGTERM, sigend_bfd, NULL); signal_set(SIGUSR1, sigdump_bfd, NULL);\<close>
  under \<^verbatim>\<open>THREAD_DUMP\<close>: \<^verbatim>\<open>signal_set(SIGTDUMP, thread_dump_signal, NULL);\<close>
  \<^verbatim>\<open>signal_ignore(SIGPIPE);\<close>
\<close>

definition bfd_signal_init :: "build \<Rightarrow> 'b process \<Rightarrow> 'b process" where
  "bfd_signal_init b s =
     (let s1 = signal_set SIGHUP Sigreload_bfd s;
          s2 = (if ignore_sigint s1 then signal_ignore SIGINT s1
                else signal_set SIGINT Sigend_bfd s1);
          s3 = signal_set SIGTERM Sigend_bfd s2;
          s4 = signal_set SIGUSR1 Sigdump_bfd s3;
          s5 = (if thread_dump b then signal_set SIGTDUMP Thread_dump_signal s4 else s4)
      in signal_ignore SIGPIPE s5)"

subsection \<open>\<^verbatim>\<open>reload_bfd_thread\<close>\<close>

text \<open>
  In the order of the source: the log line; \<^verbatim>\<open>SET_RELOAD\<close>; the dispatcher is released
  and the master cleaned up; \<^verbatim>\<open>old_bfd_data = bfd_data; bfd_data = NULL;\<close>
  \<^verbatim>\<open>old_global_data = global_data; global_data = NULL;\<close>
  \<^verbatim>\<open>signal_set(SIGCHLD, thread_child_handler, master);\<close>
  \<^verbatim>\<open>start_bfd(old_global_data);\<close>
  \<^verbatim>\<open>free_bfd_data(&old_bfd_data); free_global_data(&old_global_data);\<close> (both pointers
  are NULL afterwards); \<^verbatim>\<open>UNSET_RELOAD\<close>; the log line.  The function exists only without
  \<^verbatim>\<open>_ONE_PROCESS_DEBUG_\<close>.  Left out, as calls into files that are not among the sources
  and touch nothing of the state above: the timer, \<^verbatim>\<open>reset_priority\<close>, \<^verbatim>\<open>save_config\<close>,
  \<^verbatim>\<open>bfd_dispatcher_release\<close> and \<^verbatim>\<open>reinitialise_global_vars\<close>.
\<close>

definition reload_bfd_thread :: "build \<Rightarrow> 'b env \<Rightarrow> 'b process \<Rightarrow> 'b process outcome" where
  "reload_bfd_thread b e s =
     (let s1 = log_message ''Reloading'' s;
          s2 = s1\<lparr>reload := True\<rparr>
      in case thread_cleanup_master s2 of
           Exit st \<Rightarrow> Exit st
         | Segv \<Rightarrow> Segv
         | Return s3 \<Rightarrow>
             (let s4 = s3\<lparr>old_bfd_data := bfd_data s3, bfd_data := None\<rparr>;
                  s5 = s4\<lparr>old_global_data := global_data s4, global_data := None\<rparr>;
                  s6 = signal_set SIGCHLD Thread_child_handler s5
              in case start_bfd b e (old_global_data s6) s6 of
                   Exit st \<Rightarrow> Exit st
                 | Segv \<Rightarrow> Segv
                 | Return s7 \<Rightarrow>
                     (let s8 = s7\<lparr>old_bfd_data := None\<rparr>;
                          s9 = s8\<lparr>old_global_data := None\<rparr>;
                          s10 = s9\<lparr>reload := False\<rparr>
                      in Return (log_message ''Reload finished in %lu usec'' s10))))"

subsection \<open>\<^verbatim>\<open>start_bfd_child\<close>\<close>

text \<open>
  The function is modelled in the three parts it runs through.  \<open>bfd_child_setup\<close> is the
  child's part from \<^verbatim>\<open>our_pid = getpid()\<close> to \<^verbatim>\<open>chdir("/")\<close>, compiled without
  \<^verbatim>\<open>_ONE_PROCESS_DEBUG_\<close>:
  \<^item> \<^verbatim>\<open>if (main_pid != getppid()) kill(our_pid, SIGTERM);\<close>
  \<^item> under \<^verbatim>\<open>_WITH_VRRP_\<close>: \<^verbatim>\<open>close(bfd_vrrp_event_pipe[0]);\<close>
  \<^item> under \<^verbatim>\<open>_WITH_LVS_\<close>: \<^verbatim>\<open>close(bfd_checker_event_pipe[0]);\<close>
  \<^item> the syslog identity, which reads \<^verbatim>\<open>global_data->instance_name\<close>;
  \<^item> \<^verbatim>\<open>if (!pidfile_write(&bfd_pidfile)) { /* Fatal error */ log_message(...); exit(0); }\<close>
  \<^item> \<^verbatim>\<open>thread_destroy_master(master); master = thread_make_master();\<close>
  Left out, as calls that touch nothing of the state above: \<^verbatim>\<open>prctl\<close>, the program type,
  \<^verbatim>\<open>close_other_pidfiles\<close>, \<^verbatim>\<open>close_track_processes\<close>, the thread-dump registry, the
  debug options of the process, the opening of syslog and of the log file,
  \<^verbatim>\<open>free_parent_mallocs_startup\<close>, \<^verbatim>\<open>set_child_finder_name\<close>, \<^verbatim>\<open>separate_config_file\<close>,
  the systemd notification and \<^verbatim>\<open>chdir\<close>.  The log line before \<^verbatim>\<open>exit(0)\<close> is lost
  with the process.
\<close>

definition bfd_child_setup :: "build \<Rightarrow> 'b env \<Rightarrow> 'b process \<Rightarrow> 'b process outcome" where
  "bfd_child_setup b e s =
     (let s1 = (if \<not> parent_is_main_pid e then kill SIGTERM s else s);
          s2 = (if with_vrrp b then close_fd (fst (bfd_vrrp_event_pipe s1)) s1 else s1);
          s3 = (if with_lvs b then close_fd (fst (bfd_checker_event_pipe s2)) s2 else s2)
      in case global_data s3 of
           None \<Rightarrow> Segv
         | Some g \<Rightarrow>
             if \<not> pidfile_write_ok e
             then Exit 0
             else Return (thread_make_master s3))"

text \<open>
  \<open>bfd_child_prepare\<close>: \<^verbatim>\<open>UNSET_RELOAD;\<close> and, without \<^verbatim>\<open>_ONE_PROCESS_DEBUG_\<close>,
  \<^verbatim>\<open>bfd_signal_init();\<close> (and the registration of \<^verbatim>\<open>stop_bfd\<close> as shutdown function).
  Its result is the state in which \<^verbatim>\<open>start_bfd(NULL)\<close> is called.
\<close>

definition bfd_child_prepare :: "build \<Rightarrow> 'b process \<Rightarrow> 'b process" where
  "bfd_child_prepare b s =
     (let s1 = s\<lparr>reload := False\<rparr>
      in if \<not> one_process_debug b then bfd_signal_init b s1 else s1)"

text \<open>
  \<open>bfd_child_engine\<close>: \<^verbatim>\<open>start_bfd(NULL);\<close> then, under \<^verbatim>\<open>_ONE_PROCESS_DEBUG_\<close>,
  \<^verbatim>\<open>return 0;\<close> and otherwise \<^verbatim>\<open>launch_thread_scheduler(master);\<close>
  \<^verbatim>\<open>stop_bfd(EXIT_SUCCESS); exit(EXIT_SUCCESS);\<close>
\<close>

definition bfd_child_engine ::
  "build \<Rightarrow> 'b env \<Rightarrow> 'b process \<Rightarrow> (int \<times> 'b process) outcome" where
  "bfd_child_engine b e s =
     (case start_bfd b e None s of
        Exit st \<Rightarrow> Exit st
      | Segv \<Rightarrow> Segv
      | Return s1 \<Rightarrow>
          if one_process_debug b then Return (0, s1)
          else
            (case launch_thread_scheduler e s1 of
               Exit st \<Rightarrow> Exit st
             | Segv \<Rightarrow> Segv
             | Return s2 \<Rightarrow>
                 (case stop_bfd EXIT_SUCCESS s2 of
                    Exit st \<Rightarrow> Exit st
                  | Segv \<Rightarrow> Segv
                  | Return s3 \<Rightarrow> Exit EXIT_SUCCESS)))"

text \<open>
  \<^verbatim>\<open>start_bfd_child\<close>: without \<^verbatim>\<open>_ONE_PROCESS_DEBUG_\<close> it forks; on \<^verbatim>\<open>pid < 0\<close> it logs
  and returns -1; in the parent (\<^verbatim>\<open>pid\<close> not 0) it logs, registers the child and returns
  0; the child runs the three parts above.  Under \<^verbatim>\<open>_ONE_PROCESS_DEBUG_\<close> there is no
  fork and no setup.
\<close>

definition start_bfd_child ::
  "build \<Rightarrow> 'b env \<Rightarrow> 'b process \<Rightarrow> (int \<times> 'b process) outcome" where
  "start_bfd_child b e s =
     (if \<not> one_process_debug b then
        (if fork_result e < 0
         then Return (- 1, log_message ''BFD child process: fork error(%m)'' s)
         else if fork_result e \<noteq> 0
         then Return (0, log_message ''Starting BFD child process, pid=%d'' s)
         else
           (case bfd_child_setup b e s of
              Exit st \<Rightarrow> Exit st
            | Segv \<Rightarrow> Segv
            | Return s1 \<Rightarrow> bfd_child_engine b e (bfd_child_prepare b s1)))
      else bfd_child_engine b e (bfd_child_prepare b s))"

subsection \<open>The scheduler loop\<close>

text \<open>
  Modelled from the spec: the loop of the scheduler (\<^verbatim>\<open>launch_thread_scheduler\<close> and the
  call of an event's function) is not among the sources.  The spec: ``single-threaded
  cooperative event loop per daemon process''; ``Suspension points: only at the
  multiplexer wait call.  All handlers run to completion; no handler yields
  mid-operation''; ``signals (terminate, reload) are converted to loop events and
  processed between handlers; in-flight handlers are not interrupted''.

  The loop is between handlers (\<open>in_flight\<close> is \<open>None\<close>) or inside the function of the
  event it took from the queue.  What happens next is an input: a signal handler is
  called for a signal that arrived (at any time, also while a function is in flight);
  the loop fetches (\<open>Fetch\<close>), which takes the first event of the queue when no function
  is in flight and is nothing otherwise; or the function in flight runs to its
  completion (\<open>Complete\<close>).  Fetching the terminate event ends the loop:
  \<^verbatim>\<open>launch_thread_scheduler\<close> returns, with the state in \<open>Inr\<close>.
\<close>

datatype loop_input = Signal_handler sighandler | Fetch | Complete

record 'b loop_state =
  proc :: "'b process"
  in_flight :: "thread_func option"

text \<open>
  The function of an event: \<^verbatim>\<open>reload_bfd_thread\<close> is the source's; \<^verbatim>\<open>print_bfd_thread\<close>
  only calls \<^verbatim>\<open>bfd_print_data\<close>, and \<^verbatim>\<open>bfd_dispatcher_init\<close> is the dispatcher's: both
  are outside the sources and are not followed.
\<close>

fun thread_call ::
  "build \<Rightarrow> 'b env \<Rightarrow> thread_func \<Rightarrow> 'b process \<Rightarrow> 'b process outcome" where
  "thread_call b e Reload_bfd_thread s = reload_bfd_thread b e s"
| "thread_call b e Print_bfd_thread s = Return s"
| "thread_call b e Bfd_dispatcher_init s = Return s"

definition loop_step ::
  "build \<Rightarrow> 'b env \<Rightarrow> loop_input \<Rightarrow> 'b loop_state
     \<Rightarrow> ('b loop_state + 'b process) outcome" where
  "loop_step b e inp ls =
     (case inp of
        Signal_handler h \<Rightarrow>
          (case call_handler h (proc ls) of
             Exit st \<Rightarrow> Exit st
           | Segv \<Rightarrow> Segv
           | Return s' \<Rightarrow> Return (Inl (ls\<lparr>proc := s'\<rparr>)))
      | Fetch \<Rightarrow>
          (case in_flight ls of
             Some f \<Rightarrow> Return (Inl ls)
           | None \<Rightarrow>
               (case master (proc ls) of
                  None \<Rightarrow> Segv
                | Some [] \<Rightarrow> Return (Inl ls)
                | Some (Terminate_event # q) \<Rightarrow> Return (Inr ((proc ls)\<lparr>master := Some q\<rparr>))
                | Some (Thread_event f # q) \<Rightarrow>
                    Return (Inl \<lparr>proc = (proc ls)\<lparr>master := Some q\<rparr>, in_flight = Some f\<rparr>)))
      | Complete \<Rightarrow>
          (case in_flight ls of
             None \<Rightarrow> Return (Inl ls)
           | Some f \<Rightarrow>
               (case thread_call b e f (proc ls) of
                  Exit st \<Rightarrow> Exit st
                | Segv \<Rightarrow> Segv
                | Return s' \<Rightarrow> Return (Inl \<lparr>proc = s', in_flight = None\<rparr>))))"

text \<open>A run of the loop over the inputs, as far as they go.\<close>

fun loop_run ::
  "build \<Rightarrow> 'b env \<Rightarrow> loop_input list \<Rightarrow> 'b loop_state
     \<Rightarrow> ('b loop_state + 'b process) outcome" where
  "loop_run b e [] ls = Return (Inl ls)"
| "loop_run b e (inp # ins) ls =
     (case loop_step b e inp ls of
        Exit st \<Rightarrow> Exit st
      | Segv \<Rightarrow> Segv
      | Return r \<Rightarrow> (case r of Inl ls' \<Rightarrow> loop_run b e ins ls' | Inr s' \<Rightarrow> Return (Inr s')))"

text \<open>
  The inputs that can come while a function is in flight and are not its completion: a
  call of one of the three signal handlers of the BFD child, or a fetch.
\<close>

fun arrives_in_flight :: "loop_input \<Rightarrow> bool" where
  "arrives_in_flight (Signal_handler h) =
     (h = Sigreload_bfd \<or> h = Sigend_bfd \<or> h = Sigdump_bfd)"
| "arrives_in_flight Fetch = True"
| "arrives_in_flight Complete = False"

text \<open>
  Two states of the process with the same daemon state: all but the master's queue, the
  pending signals and the log.
\<close>

definition same_daemon_state :: "'b process \<Rightarrow> 'b process \<Rightarrow> bool" where
  "same_daemon_state s' s \<longleftrightarrow>
     bfd_data s' = bfd_data s \<and> global_data s' = global_data s \<and>
     old_bfd_data s' = old_bfd_data s \<and> old_global_data s' = old_global_data s \<and>
     reload s' = reload s \<and> debug s' = debug s \<and> fds s' = fds s \<and>
     bfd_vrrp_event_pipe s' = bfd_vrrp_event_pipe s \<and>
     bfd_checker_event_pipe s' = bfd_checker_event_pipe s \<and>
     signal_handlers s' = signal_handlers s \<and> ignore_sigint s' = ignore_sigint s"

subsection \<open>Example inputs\<close>

text \<open>
  A build with both event pipes, a process that holds them under the descriptors 3 to 6
  with the BFD data \<open>1\<close> live, and an environment whose parser reads the BFD data \<open>2\<close>,
  sets \<^verbatim>\<open>reload_check_config\<close> to \<open>chk\<close> and reports \<open>status\<close>.
\<close>

abbreviation example_build :: build where
  "example_build \<equiv>
     \<lparr>with_vrrp = True, with_lvs = True, one_process_debug = False, thread_dump = False\<rparr>"

abbreviation example_data :: "bool \<Rightarrow> data_t" where
  "example_data chk \<equiv>
     \<lparr>reload_check_config = chk, bfd_process_name = None, instance_name = None,
      network_namespace = None\<rparr>"

abbreviation example_fds :: fd_table where
  "example_fds \<equiv>
     [3 \<mapsto> (Pipe_read 0, {O_CLOEXEC, O_NONBLOCK}), 4 \<mapsto> (Pipe_write 0, {O_CLOEXEC, O_NONBLOCK}),
      5 \<mapsto> (Pipe_read 1, {O_CLOEXEC, O_NONBLOCK}), 6 \<mapsto> (Pipe_write 1, {O_CLOEXEC, O_NONBLOCK})]"

abbreviation example_process :: "nat process" where
  "example_process \<equiv>
     \<lparr>fds = example_fds, bfd_vrrp_event_pipe = (3, 4), bfd_checker_event_pipe = (5, 6),
      global_data = Some (example_data True), bfd_data = Some 1,
      old_global_data = None, old_bfd_data = None, reload = False, debug = {},
      master = Some [], signal_handlers = (\<lambda>sig. SIG_DFL), ignore_sigint = False,
      pending_signals = [], syslog = []\<rparr>"

abbreviation example_env :: "bool \<Rightarrow> config_status \<Rightarrow> bool \<Rightarrow> nat env" where
  "example_env chk status pidfile_ok \<equiv>
     \<lparr>fork_result = 0, parent_is_main_pid = True, pidfile_write_ok = pidfile_ok,
      alloc_global_data = example_data False, alloc_bfd_data = Some 0,
      init_data_global = (\<lambda>g. g\<lparr>reload_check_config := chk\<rparr>),
      init_data_bfd = (\<lambda>d. 2), init_global_data = (\<lambda>g prev. g),
      get_config_status = status, launch_thread_scheduler = Return\<rparr>"

section \<open>Properties of the buffer functions\<close>

lemma size_t_sub_1:
  assumes "1 \<le> len" "len \<le> SIZE_MAX"
  shows "size_t_sub len (Suc 0) = len - 1"
proof -
  from assms have "len + (SIZE_MAX + 1) - Suc 0 = (len - 1) + (SIZE_MAX + 1)" by simp
  then have "size_t_sub len (Suc 0) = (len - 1) mod (SIZE_MAX + 1)"
    unfolding size_t_sub_def by (metis mod_add_self2)
  also have "\<dots> = len - 1" using assms by simp
  finally show ?thesis .
qed

lemma c_string_split:
  assumes "0 \<in> set (src :: byte list)"
  shows "\<exists>rest. src = c_string src @ 0 # rest"
proof -
  have "dropWhile (\<lambda>c. c \<noteq> 0) src \<noteq> []"
    using assms by (simp add: dropWhile_eq_Nil_conv)
  then obtain y rest where d: "dropWhile (\<lambda>c. c \<noteq> 0) src = y # rest"
    by (cases "dropWhile (\<lambda>c. c \<noteq> 0) src") auto
  then have "y = 0"
    using hd_dropWhile [of "\<lambda>c. c \<noteq> 0" src] by fastforce
  with d have "src = takeWhile (\<lambda>c. c \<noteq> 0) src @ 0 # rest"
    by (metis takeWhile_dropWhile_id)
  then show ?thesis by (auto simp: c_string_def)
qed

lemma c_string_nonzero: "0 \<notin> set (c_string s)"
  unfolding c_string_def by (metis (mono_tags, lifting) set_takeWhileD)

lemma c_string_prefix: "0 \<notin> set xs \<Longrightarrow> c_string (xs @ 0 # ys) = xs"
  unfolding c_string_def by (induction xs) auto

lemma word_xor_eq_0_iff: "(a::'a::len word) XOR b = 0 \<longleftrightarrow> a = b"
proof
  assume "a XOR b = 0"
  then have "(a XOR b) XOR b = 0 XOR b" by simp
  then show "a = b" by (simp add: xor.assoc)
qed simp

lemma all_from_split:
  assumes "i < n"
  shows "(\<forall>j. i \<le> j \<and> j < n \<longrightarrow> P j) \<longleftrightarrow>
         P i \<and> (\<forall>j. i + 1 \<le> j \<and> j < (n::nat) \<longrightarrow> P j)"
proof
  assume h: "\<forall>j. i \<le> j \<and> j < n \<longrightarrow> P j"
  show "P i \<and> (\<forall>j. i + 1 \<le> j \<and> j < n \<longrightarrow> P j)" using h assms by auto
next
  assume h: "P i \<and> (\<forall>j. i + 1 \<le> j \<and> j < n \<longrightarrow> P j)"
  show "\<forall>j. i \<le> j \<and> j < n \<longrightarrow> P j"
  proof (intro allI impI)
    fix j assume "i \<le> j \<and> j < n"
    then show "P j" using h by (cases "j = i") auto
  qed
qed

lemma memcmp_constant_time_loop_zero:
  "n \<le> length s1 \<Longrightarrow> n \<le> length s2 \<Longrightarrow>
   \<exists>r. memcmp_constant_time_loop s1 s2 n i ret = Some r \<and>
       (r = 0 \<longleftrightarrow> ret = 0 \<and> (\<forall>j. i \<le> j \<and> j < n \<longrightarrow> s1 ! j = s2 ! j))"
proof (induction s1 s2 n i ret rule: memcmp_constant_time_loop.induct)
  case (1 s1 s2 n i ret)
  show ?case
  proof (cases "i < n")
    case False
    then show ?thesis by (auto simp: memcmp_constant_time_loop.simps)
  next
    case True
    with "1.prems" have inb: "i < length s1 \<and> i < length s2" by simp
    from "1.IH" [OF True inb "1.prems"] obtain r where
      r: "memcmp_constant_time_loop s1 s2 n (i + 1) (ret OR (s1 ! i XOR s2 ! i)) = Some r"
      and z: "r = 0 \<longleftrightarrow> (ret OR (s1 ! i XOR s2 ! i)) = 0 \<and>
                (\<forall>j. i + 1 \<le> j \<and> j < n \<longrightarrow> s1 ! j = s2 ! j)"
      by blast
    have step: "memcmp_constant_time_loop s1 s2 n i ret = Some r"
      using True inb r by (subst memcmp_constant_time_loop.simps) simp
    have "(\<forall>j. i \<le> j \<and> j < n \<longrightarrow> s1 ! j = s2 ! j) \<longleftrightarrow>
          s1 ! i = s2 ! i \<and> (\<forall>j. i + 1 \<le> j \<and> j < n \<longrightarrow> s1 ! j = s2 ! j)"
      using True by (rule all_from_split)
    then show ?thesis using step z by (auto simp: or_eq_0_iff word_xor_eq_0_iff)
  qed
qed

lemma strcpy_safe_impl_fits:
  assumes len: "1 \<le> len" "len \<le> SIZE_MAX" "len \<le> length dst"
    and nul: "0 \<in> set src" and short: "length (c_string src) < len"
  shows "\<exists>d. strcpy_safe_impl dst src len = Some d \<and> length d = length dst \<and>
             drop len d = drop len dst \<and> d ! (len - 1) = 0 \<and>
             take (length (c_string src) + 1) d = c_string src @ [0] \<and>
             c_string d = c_string src"
proof -
  obtain rest where src: "src = c_string src @ 0 # rest"
    using c_string_split [OF nul] by blast
  define k where "k = length (c_string src)"
  define tw where "tw = c_string src"
  have ltw: "length tw = k" by (simp add: k_def tw_def)
  have src': "src = tw @ 0 # rest" using src by (simp add: tw_def)
  have sl: "strlen src = Some k" using nul by (simp add: strlen_def k_def)
  have klen: "k < len" using short by (simp add: k_def)
  have m: "memcpy dst src (k + 1) = Some (tw @ 0 # drop (k + 1) dst)"
    using len klen ltw by (subst src') (simp add: memcpy_def)
  define d1 where "d1 = tw @ 0 # drop (k + 1) dst"
  have l1: "length d1 = length dst" using len klen ltw by (simp add: d1_def)
  define d where "d = d1[len - 1 := 0]"
  have res: "strcpy_safe_impl dst src len = Some d"
    using sl klen m l1 len
    by (simp add: strcpy_safe_impl_def size_t_sub_1 store_byte_def d_def d1_def)
  have hd0: "\<exists>tl. (0 # xs)[j := 0] = (0::byte) # tl" for xs j
    by (cases j) auto
  have nl: "\<not> len - 1 < length tw" using klen ltw by arith
  have "d = tw @ (0 # drop (k + 1) dst)[len - 1 - length tw := 0]"
    unfolding d_def d1_def list_update_append using nl by simp
  then obtain tl where dtl: "d = tw @ 0 # tl" using hd0 by metis
  have nz: "0 \<notin> set tw" by (simp add: tw_def c_string_nonzero)
  have "length d = length dst" using l1 by (simp add: d_def)
  moreover have "drop len d = drop len dst"
  proof -
    have "drop len d = drop len d1" using len by (simp add: d_def drop_update_cancel)
    also have "\<dots> = drop len dst" using klen ltw by (simp add: d1_def drop_Cons')
    finally show ?thesis .
  qed
  moreover have "d ! (len - 1) = 0" using l1 len by (simp add: d_def)
  moreover have "take (k + 1) d = tw @ [0]" using dtl ltw by simp
  moreover have "c_string d = tw" using dtl nz by (simp add: c_string_prefix)
  ultimately show ?thesis using res by (auto simp: k_def tw_def)
qed

lemma strcpy_safe_impl_truncates:
  assumes len: "1 \<le> len" "len \<le> SIZE_MAX" "len \<le> length dst"
    and nul: "0 \<in> set src" and long: "\<not> length (c_string src) < len"
  shows "\<exists>d. strcpy_safe_impl dst src len = Some d \<and> length d = length dst \<and>
             drop len d = drop len dst \<and> d ! (len - 1) = 0 \<and>
             take len d = take (len - 1) src @ [0] \<and>
             c_string d = take (len - 1) src"
proof -
  obtain rest where src: "src = c_string src @ 0 # rest"
    using c_string_split [OF nul] by blast
  define k where "k = length (c_string src)"
  have sl: "strlen src = Some k" using nul by (simp add: strlen_def k_def)
  have klen: "len \<le> k" using long by (simp add: k_def)
  have lsrc: "k < length src" by (subst src) (simp add: k_def)
  define p where "p = take (len - 1) src"
  have lp: "length p = len - 1" using klen lsrc len by (simp add: p_def)
  have pp: "p = take (len - 1) (c_string src)"
    unfolding p_def using klen by (subst src) (simp add: k_def)
  have nz: "0 \<notin> set p"
    unfolding pp using c_string_nonzero [of src] by (meson in_set_takeD)
  have m: "memcpy dst src (len - 1) = Some (p @ drop (len - 1) dst)"
    using len klen lsrc by (auto simp: memcpy_def p_def)
  have dd: "drop (len - 1) dst = dst ! (len - 1) # drop (Suc (len - 1)) dst"
    using len by (intro Cons_nth_drop_Suc [symmetric]) simp
  have sl1: "Suc (len - Suc 0) = len" using len by simp
  define d where "d = p @ 0 # drop len dst"
  have upd: "(p @ drop (len - 1) dst)[len - 1 := 0] = d"
    unfolding d_def using lp by (subst dd) (simp add: list_update_append sl1)
  have res: "strcpy_safe_impl dst src len = Some d"
    using sl long m len lp upd
    by (simp add: strcpy_safe_impl_def size_t_sub_1 store_byte_def k_def)
  have "length d = length dst" using lp len by (simp add: d_def)
  moreover have "drop len d = drop len dst" using lp len by (simp add: d_def)
  moreover have "d ! (len - 1) = 0" using lp by (simp add: d_def nth_append)
  moreover have "take len d = p @ [0]" using lp len by (simp add: d_def)
  moreover have "c_string d = p" using nz by (simp add: d_def c_string_prefix)
  ultimately show ?thesis using res by (auto simp: p_def)
qed

subsection \<open>The two loops of \<^verbatim>\<open>in_csum\<close>\<close>

lemma in_csum_loops_agree:
  "in_csum_memcpy_loop le addr (2 * w) nleft s =
     map_option (\<lambda>(w', n', s'). (2 * w', n', s')) (in_csum_alias_loop le addr w nleft s)"
proof (induction le addr w nleft s rule: in_csum_alias_loop.induct)
  case (1 le addr w nleft sum32)
  show ?case
  proof (cases "1 < nleft")
    case False
    then show ?thesis
      by (simp add: in_csum_memcpy_loop.simps [of le addr "2 * w"] in_csum_alias_loop.simps [of le addr w])
  next
    case True
    show ?thesis
    proof (cases "load16 le addr (2 * w)")
      case None
      with True show ?thesis
        by (simp add: in_csum_memcpy_loop.simps [of le addr "2 * w"] in_csum_alias_loop.simps [of le addr w])
    next
      case (Some v)
      have "2 * w + 2 = 2 * (w + 1)" by simp
      with "1.IH" [OF True Some] True Some show ?thesis
        by (simp add: in_csum_memcpy_loop.simps [of le addr "2 * w"] in_csum_alias_loop.simps [of le addr w])
    qed
  qed
qed

lemma in_csum_alias_loop_total:
  "2 * w + nleft \<le> length addr \<Longrightarrow>
   \<exists>w' n' s'. in_csum_alias_loop le addr w nleft s = Some (w', n', s') \<and> n' \<le> 1 \<and>
      2 * w' + n' = 2 * w + nleft"
proof (induction le addr w nleft s rule: in_csum_alias_loop.induct)
  case (1 le addr w nleft sum32)
  show ?case
  proof (cases "1 < nleft")
    case False
    then show ?thesis by (simp add: in_csum_alias_loop.simps [of le addr w])
  next
    case True
    with "1.prems" obtain v where v: "load16 le addr (2 * w) = Some v"
      by (auto simp: load16_def)
    have "2 * (w + 1) + (nleft - 2) \<le> length addr" using True "1.prems" by simp
    from "1.IH" [OF True v this] obtain w' n' s' where
      "in_csum_alias_loop le addr (w + 1) (nleft - 2) (sum32 + ucast v) = Some (w', n', s')"
      "n' \<le> 1" "2 * w' + n' = 2 * (w + 1) + (nleft - 2)" by blast
    then show ?thesis using True v
      by (simp add: in_csum_alias_loop.simps [of le addr w])
  qed
qed

lemma in_csum_alias_total:
  assumes "len \<le> length addr"
  shows "\<exists>r a. in_csum_alias le addr len csum acc = Some (r, a) \<and> (a = None \<longleftrightarrow> acc = None)"
proof -
  from in_csum_alias_loop_total [of 0 len addr le csum] assms obtain w' n' s' where
    l: "in_csum_alias_loop le addr 0 len csum = Some (w', n', s')" "n' \<le> 1" "2 * w' + n' = len"
    by auto
  show ?thesis
  proof (cases "n' = 1")
    case True
    with l assms have "load8 addr (2 * w') = Some (addr ! (2 * w'))" by (auto simp: load8_def)
    with l True show ?thesis by (cases acc) (simp_all add: in_csum_alias_def Let_def)
  next
    case False
    with l show ?thesis by (cases acc) (simp_all add: in_csum_alias_def Let_def)
  qed
qed

subsection \<open>The buffer of \<^verbatim>\<open>make_tmp_filename\<close>\<close>

lemma takeWhile_NUL: "NUL \<notin> set xs \<Longrightarrow> takeWhile (\<lambda>c. c \<noteq> NUL) (xs @ NUL # ys) = xs"
  by (induction xs) auto

lemma make_tmp_filename_concat:
  assumes "NUL \<notin> set dir" "NUL \<notin> set file_name"
  shows "make_tmp_filename (Some dir) file_name = Some (dir @ ''/'' @ file_name)"
proof -
  define n where "n = length dir"
  define m where "m = length file_name"
  have p1: "strcpy (MALLOC (n + 1 + m + 1)) 0 dir = Some (dir @ NUL # replicate (m + 1) NUL)"
    by (simp add: strcpy_def MALLOC_def n_def replicate_add [symmetric] del: replicate_Suc)
  have p2: "store_char (dir @ NUL # replicate (m + 1) NUL) n CHR ''/'' = Some (dir @ CHR ''/'' # replicate (m + 1) NUL)"
    by (simp add: store_char_def n_def list_update_append)
  have p3: "strcpy (dir @ CHR ''/'' # replicate (m + 1) NUL) (n + 1) file_name = Some (dir @ CHR ''/'' # file_name @ [NUL])"
    by (simp add: strcpy_def n_def m_def)
  have nn: "NUL \<notin> set (dir @ CHR ''/'' # file_name)" using assms by (simp add: NUL_def)
  have "takeWhile (\<lambda>c. c \<noteq> NUL) ((dir @ CHR ''/'' # file_name) @ NUL # []) = dir @ CHR ''/'' # file_name"
    using nn by (rule takeWhile_NUL)
  then show ?thesis using p1 p2 p3
    by (simp add: make_tmp_filename_def Let_def n_def [symmetric] m_def [symmetric])
qed

section \<open>Properties of the BFD child process\<close>

lemma sigreload_bfd_enqueues:
  "master s = Some q \<Longrightarrow>
   sigreload_bfd s = Return (s\<lparr>master := Some (q @ [Thread_event Reload_bfd_thread])\<rparr>)"
  by (simp add: sigreload_bfd_def thread_add_event_def)

lemma sigend_bfd_enqueues:
  "master s = Some q \<Longrightarrow> sigend_bfd s = Return (s\<lparr>master := Some (q @ [Terminate_event])\<rparr>)"
  by (simp add: sigend_bfd_def thread_add_terminate_event_def)

lemma sigend_bfd_no_master: "master s = None \<Longrightarrow> sigend_bfd s = Return s"
  by (simp add: sigend_bfd_def)

lemma sigdump_bfd_enqueues:
  "master s = Some q \<Longrightarrow>
   sigdump_bfd s =
     Return (s\<lparr>syslog := syslog s @ [''Printing BFD data for process(%d) on signal''],
               master := Some (q @ [Thread_event Print_bfd_thread])\<rparr>)"
  by (simp add: sigdump_bfd_def thread_add_event_def log_message_def)

lemma bfd_signal_init_eq:
  "bfd_signal_init b s =
     s\<lparr>signal_handlers :=
         (\<lambda>sig. if sig = SIGPIPE then SIG_IGN
                else if sig = SIGTDUMP \<and> thread_dump b then Handler Thread_dump_signal
                else if sig = SIGUSR1 then Handler Sigdump_bfd
                else if sig = SIGTERM then Handler Sigend_bfd
                else if sig = SIGINT then (if ignore_sigint s then SIG_IGN else Handler Sigend_bfd)
                else if sig = SIGHUP then Handler Sigreload_bfd
                else signal_handlers s sig)\<rparr>"
  by (auto simp: bfd_signal_init_def signal_set_def signal_ignore_def Let_def fun_eq_iff
           intro!: arg_cong [where f = "\<lambda>h. s\<lparr>signal_handlers := h\<rparr>"])

lemma open_pipe_failed: "open_pipe Pipe2_failed t arr = (- 1, arr, t)"
  by (simp add: open_pipe_def pipe2_def)

lemma open_pipe_ok:
  "open_pipe (Pipe2_ok r w p) t arr =
     (0, (r, w), t(r \<mapsto> (Pipe_read p, {O_CLOEXEC, O_NONBLOCK}),
                   w \<mapsto> (Pipe_write p, {O_CLOEXEC, O_NONBLOCK})))"
  by (simp add: open_pipe_def pipe2_def)

lemma call_handler_frame:
  assumes "h \<in> {Sigreload_bfd, Sigend_bfd, Sigdump_bfd}" and "call_handler h s = Return s'"
  shows "bfd_data s' = bfd_data s \<and> global_data s' = global_data s \<and>
         old_bfd_data s' = old_bfd_data s \<and> old_global_data s' = old_global_data s \<and>
         reload s' = reload s \<and> debug s' = debug s \<and> fds s' = fds s \<and>
         bfd_vrrp_event_pipe s' = bfd_vrrp_event_pipe s \<and>
         bfd_checker_event_pipe s' = bfd_checker_event_pipe s \<and>
         signal_handlers s' = signal_handlers s \<and>
         (\<exists>evs. length evs \<le> 1 \<and> master s' = map_option (\<lambda>q. q @ evs) (master s))"
proof (cases "master s")
  case None
  with assms have "s' = s"
    by (auto simp: sigreload_bfd_def sigdump_bfd_def sigend_bfd_def thread_add_event_def
                   log_message_def)
  moreover have "master s = map_option (\<lambda>q. q @ []) (master s)" using None by simp
  ultimately show ?thesis by (metis le0 list.size(3))
next
  case (Some q)
  from assms(1) consider "h = Sigreload_bfd" | "h = Sigend_bfd" | "h = Sigdump_bfd" by auto
  then show ?thesis
  proof cases
    case 1
    with assms(2) Some show ?thesis
      by (auto simp: sigreload_bfd_enqueues intro!: exI [of _ "[Thread_event Reload_bfd_thread]"])
  next
    case 2
    with assms(2) Some show ?thesis
      by (auto simp: sigend_bfd_enqueues intro!: exI [of _ "[Terminate_event]"])
  next
    case 3
    with assms(2) Some show ?thesis
      by (auto simp: sigdump_bfd_enqueues intro!: exI [of _ "[Thread_event Print_bfd_thread]"])
  qed
qed

lemma bfd_child_setup_Return:
  assumes "bfd_child_setup b e s = Return s1"
  shows "fds s1 = (\<lambda>fd. if with_lvs b \<and> fd = fst (bfd_checker_event_pipe s) then None
                       else if with_vrrp b \<and> fd = fst (bfd_vrrp_event_pipe s) then None
                       else fds s fd)"
  using assms
  by (auto simp: bfd_child_setup_def Let_def close_fd_def kill_def thread_make_master_def
                 fun_eq_iff split: option.splits if_splits)

lemma bfd_child_prepare_fds: "fds (bfd_child_prepare b s) = fds s"
  by (simp add: bfd_child_prepare_def bfd_signal_init_eq Let_def)

lemma reload_bfd_thread_config_error:
  assumes "\<not> one_process_debug b" and "get_config_status e \<noteq> CONFIG_OK"
    and "alloc_bfd_data e = Some fresh" and "master s = Some q"
  shows "reload_bfd_thread b e s =
           (let g' = init_global_data e (init_data_global e (alloc_global_data e)) (global_data s)
            in if CONFIG_TEST_BIT \<notin> debug s \<and> reload_check_config g'
               then Exit KEEPALIVED_EXIT_CONFIG
               else Return
                 (s\<lparr>syslog := syslog s @ [''Reloading'', ''Reload finished in %lu usec''],
                    reload := False,
                    master := Some (if CONFIG_TEST_BIT \<in> debug s then []
                                    else [Thread_event Bfd_dispatcher_init]),
                    signal_handlers := (signal_handlers s)(SIGCHLD := Handler Thread_child_handler),
                    old_bfd_data := None, old_global_data := None,
                    bfd_data := Some (init_data_bfd e fresh), global_data := Some g'\<rparr>))"
  using assms
  by (simp add: reload_bfd_thread_def start_bfd_def stop_bfd_def thread_cleanup_master_def
                thread_add_event_def signal_set_def log_message_def Let_def)

lemma start_bfd_child_as_child:
  assumes "\<not> one_process_debug b" and "fork_result e = 0"
    and "bfd_child_setup b e s = Return s1"
  shows "start_bfd_child b e s = bfd_child_engine b e (bfd_child_prepare b s1)"
  using assms by (simp add: start_bfd_child_def)

subsection \<open>The scheduler loop\<close>

lemma same_daemon_state_trans:
  "same_daemon_state s2 s1 \<Longrightarrow> same_daemon_state s1 s \<Longrightarrow> same_daemon_state s2 s"
  by (simp add: same_daemon_state_def)

lemma loop_step_in_flight:
  assumes "in_flight ls = Some f" and "master (proc ls) = Some q" and "arrives_in_flight inp"
  shows "\<exists>ls' evs. loop_step b e inp ls = Return (Inl ls') \<and> in_flight ls' = Some f \<and>
           master (proc ls') = Some (q @ evs) \<and> same_daemon_state (proc ls') (proc ls)"
proof (cases inp)
  case (Signal_handler h)
  with assms(3) consider "h = Sigreload_bfd" | "h = Sigend_bfd" | "h = Sigdump_bfd" by auto
  then show ?thesis
  proof cases
    case 1
    then show ?thesis using assms Signal_handler
      by (auto simp: loop_step_def sigreload_bfd_enqueues same_daemon_state_def)
  next
    case 2
    then show ?thesis using assms Signal_handler
      by (auto simp: loop_step_def sigend_bfd_enqueues same_daemon_state_def)
  next
    case 3
    then show ?thesis using assms Signal_handler
      by (auto simp: loop_step_def sigdump_bfd_enqueues same_daemon_state_def)
  qed
next
  case Fetch
  then show ?thesis using assms
    by (auto simp: loop_step_def same_daemon_state_def intro: exI [of _ "[]"])
next
  case Complete
  with assms(3) show ?thesis by simp
qed

lemma loop_run_in_flight:
  assumes "in_flight ls = Some f" and "master (proc ls) = Some q"
    and "list_all arrives_in_flight ins"
  shows "\<exists>ls' evs. loop_run b e ins ls = Return (Inl ls') \<and> in_flight ls' = Some f \<and>
           master (proc ls') = Some (q @ evs) \<and> same_daemon_state (proc ls') (proc ls)"
  using assms
proof (induction ins arbitrary: ls q)
  case Nil
  then show ?case by (auto simp: same_daemon_state_def intro: exI [of _ "[]"])
next
  case (Cons inp ins)
  from Cons.prems have a: "arrives_in_flight inp" and r: "list_all arrives_in_flight ins"
    by simp_all
  from loop_step_in_flight [OF Cons.prems(1,2) a, of b e] obtain ls1 evs1 where
    s: "loop_step b e inp ls = Return (Inl ls1)" "in_flight ls1 = Some f"
       "master (proc ls1) = Some (q @ evs1)" "same_daemon_state (proc ls1) (proc ls)"
    by blast
  from Cons.IH [OF s(2,3) r] obtain ls' evs where
    t: "loop_run b e ins ls1 = Return (Inl ls')" "in_flight ls' = Some f"
       "master (proc ls') = Some ((q @ evs1) @ evs)" "same_daemon_state (proc ls') (proc ls1)"
    by blast
  have "loop_run b e (inp # ins) ls = Return (Inl ls')" using s(1) t(1) by simp
  moreover have "master (proc ls') = Some (q @ (evs1 @ evs))" using t(3) by simp
  moreover have "same_daemon_state (proc ls') (proc ls)"
    using t(4) s(4) by (rule same_daemon_state_trans)
  ultimately show ?case using t(2) by blast
qed

lemma loop_step_returned:
  assumes "loop_step b e inp ls = Return (Inr s')"
  shows "inp = Fetch \<and> in_flight ls = None \<and>
         (\<exists>q. master (proc ls) = Some (Terminate_event # q) \<and> s' = (proc ls)\<lparr>master := Some q\<rparr>)"
  using assms
  by (auto simp: loop_step_def split: loop_input.splits outcome.splits option.splits
           list.splits thread_event.splits)

lemma loop_step_not_complete:
  assumes "loop_step b e inp ls = Return (Inl ls')" and "inp \<noteq> Complete"
  shows "same_daemon_state (proc ls') (proc ls) \<and>
         (in_flight ls' \<noteq> in_flight ls \<longrightarrow> inp = Fetch \<and> in_flight ls = None)"
proof (cases inp)
  case (Signal_handler h)
  then obtain s' where c: "call_handler h (proc ls) = Return s'" and l: "ls' = ls\<lparr>proc := s'\<rparr>"
    using assms(1) by (auto simp: loop_step_def split: outcome.splits)
  have "same_daemon_state s' (proc ls)"
  proof (cases "h \<in> {Sigreload_bfd, Sigend_bfd, Sigdump_bfd}")
    case True
    then show ?thesis
    proof (cases "master (proc ls)")
      case None
      with True c have "s' = proc ls"
        by (auto simp: sigreload_bfd_def sigdump_bfd_def sigend_bfd_def thread_add_event_def
                       log_message_def)
      then show ?thesis by (simp add: same_daemon_state_def)
    next
      case (Some q)
      with True c show ?thesis
        by (auto simp: sigreload_bfd_enqueues sigend_bfd_enqueues sigdump_bfd_enqueues
                       same_daemon_state_def)
    qed
  next
    case False
    then have "s' = proc ls" using c by (cases h) auto
    then show ?thesis by (simp add: same_daemon_state_def)
  qed
  then show ?thesis using l by simp
next
  case Fetch
  then show ?thesis using assms(1)
    by (auto simp: loop_step_def same_daemon_state_def split: option.splits list.splits
             thread_event.splits)
next
  case Complete
  with assms(2) show ?thesis by simp
qed

lemma loop_step_fetch:
  assumes "in_flight ls = None" and "master (proc ls) = Some (Thread_event f # q)"
  shows "loop_step b e Fetch ls =
           Return (Inl \<lparr>proc = (proc ls)\<lparr>master := Some q\<rparr>, in_flight = Some f\<rparr>)"
  using assms by (simp add: loop_step_def)

lemma loop_step_complete_reload:
  assumes "in_flight ls = Some Reload_bfd_thread"
  shows "loop_step b e Complete ls =
           (case reload_bfd_thread b e (proc ls) of
              Exit st \<Rightarrow> Exit st
            | Segv \<Rightarrow> Segv
            | Return s' \<Rightarrow> Return (Inl \<lparr>proc = s', in_flight = None\<rparr>))"
  using assms by (simp add: loop_step_def)

section \<open>The claims\<close>

text \<open>
  Claim C1, as amended.  When the configuration read during a reload has an error
  (\<^verbatim>\<open>get_config_status()\<close> is not \<^verbatim>\<open>CONFIG_OK\<close>), the BFD data can be allocated and the
  master exists, \<^verbatim>\<open>reload_bfd_thread\<close> does not keep the previous configuration.  If the
  newly read global data has \<^verbatim>\<open>reload_check_config\<close> set (and the process is not testing
  its configuration), the process ends with the exit status \<^verbatim>\<open>KEEPALIVED_EXIT_CONFIG\<close>,
  which is not 0: that reports the failure to the supervisor.  Otherwise the reload
  completes: the newly read global data and BFD data are live and the previous ones are
  freed.
\<close>

theorem reload_config_error_not_kept:
  assumes "\<not> one_process_debug b" and "get_config_status e \<noteq> CONFIG_OK"
    and "alloc_bfd_data e = Some fresh" and "master s = Some q"
  shows "KEEPALIVED_EXIT_CONFIG \<noteq> 0 \<and>
         reload_bfd_thread b e s =
           (let g' = init_global_data e (init_data_global e (alloc_global_data e)) (global_data s)
            in if CONFIG_TEST_BIT \<notin> debug s \<and> reload_check_config g'
               then Exit KEEPALIVED_EXIT_CONFIG
               else Return
                 (s\<lparr>syslog := syslog s @ [''Reloading'', ''Reload finished in %lu usec''],
                    reload := False,
                    master := Some (if CONFIG_TEST_BIT \<in> debug s then []
                                    else [Thread_event Bfd_dispatcher_init]),
                    signal_handlers := (signal_handlers s)(SIGCHLD := Handler Thread_child_handler),
                    old_bfd_data := None, old_global_data := None,
                    bfd_data := Some (init_data_bfd e fresh), global_data := Some g'\<rparr>))"
  using reload_bfd_thread_config_error [OF assms] by (simp add: KEEPALIVED_EXIT_CONFIG_def)

theorem reload_config_error_not_kept_witness:
  "\<not> one_process_debug example_build \<and>
   get_config_status (example_env True (CONFIG_ERROR 1) True) \<noteq> CONFIG_OK \<and>
   alloc_bfd_data (example_env True (CONFIG_ERROR 1) True) = Some 0 \<and>
   master example_process = Some [] \<and>
   reload_bfd_thread example_build (example_env True (CONFIG_ERROR 1) True) example_process = Exit 2"
proof -
  have h: "\<not> one_process_debug example_build"
    "get_config_status (example_env True (CONFIG_ERROR 1) True) \<noteq> CONFIG_OK"
    "alloc_bfd_data (example_env True (CONFIG_ERROR 1) True) = Some 0"
    "master example_process = Some []"
    by simp_all
  from reload_config_error_not_kept [OF h] show ?thesis
    by (simp add: KEEPALIVED_EXIT_CONFIG_def)
qed

text \<open>
  The claim as it was stated fails: with an erroneous configuration the process ends
  (status 2) when the new global data asks for the check, and continues on the new BFD
  data \<open>2\<close> in place of the live \<open>1\<close> when it does not.
\<close>

theorem reload_config_error_counterexample:
  "get_config_status (example_env True (CONFIG_ERROR 1) True) \<noteq> CONFIG_OK \<and>
   bfd_data example_process = Some 1 \<and>
   reload_bfd_thread example_build (example_env True (CONFIG_ERROR 1) True) example_process = Exit 2 \<and>
   reload_bfd_thread example_build (example_env False (CONFIG_ERROR 1) True) example_process =
     Return (example_process
       \<lparr>syslog := [''Reloading'', ''Reload finished in %lu usec''],
        master := Some [Thread_event Bfd_dispatcher_init],
        signal_handlers := (\<lambda>sig. SIG_DFL)(SIGCHLD := Handler Thread_child_handler),
        bfd_data := Some 2, global_data := Some (example_data False)\<rparr>) \<and>
   Some (2::nat) \<noteq> bfd_data example_process"
  by (simp add: reload_bfd_thread_def start_bfd_def stop_bfd_def thread_cleanup_master_def
                thread_add_event_def signal_set_def log_message_def Let_def
                KEEPALIVED_EXIT_CONFIG_def)

text \<open>
  Claim C2.  What the code does where the claim fails: in the forked child, when
  \<^verbatim>\<open>pidfile_write\<close> fails, \<^verbatim>\<open>start_bfd_child\<close> ends the process with the exit status 0,
  the status of a clean stop, although the source comments the branch as a fatal error.
\<close>

theorem pidfile_failure_exits_0:
  assumes "\<not> one_process_debug b" and "fork_result e = 0" and "global_data s = Some g"
    and "\<not> pidfile_write_ok e"
  shows "start_bfd_child b e s = Exit 0"
  using assms
  by (simp add: start_bfd_child_def bfd_child_setup_def Let_def close_fd_def kill_def)

theorem pidfile_failure_exits_0_witness:
  "\<not> one_process_debug example_build \<and>
   fork_result (example_env True CONFIG_OK False) = 0 \<and>
   global_data example_process = Some (example_data True) \<and>
   \<not> pidfile_write_ok (example_env True CONFIG_OK False) \<and>
   start_bfd_child example_build (example_env True CONFIG_OK False) example_process = Exit 0"
proof -
  have h: "\<not> one_process_debug example_build"
    "fork_result (example_env True CONFIG_OK False) = 0"
    "global_data example_process = Some (example_data True)"
    "\<not> pidfile_write_ok (example_env True CONFIG_OK False)"
    by simp_all
  from pidfile_failure_exits_0 [OF h] show ?thesis by simp
qed

text \<open>
  The sibling path: when \<^verbatim>\<open>alloc_bfd_data\<close> fails (and the process is not testing its
  configuration), \<^verbatim>\<open>start_bfd\<close> ends the process with \<^verbatim>\<open>KEEPALIVED_EXIT_FATAL\<close>, which is
  not 0.
\<close>

theorem start_bfd_alloc_failure_exits_fatal:
  assumes "alloc_bfd_data e = None" and "CONFIG_TEST_BIT \<notin> debug s"
  shows "start_bfd b e prev s = Exit KEEPALIVED_EXIT_FATAL \<and> KEEPALIVED_EXIT_FATAL \<noteq> 0"
  using assms by (simp add: start_bfd_def stop_bfd_def Let_def KEEPALIVED_EXIT_FATAL_def)

theorem start_bfd_alloc_failure_exits_fatal_witness:
  "alloc_bfd_data ((example_env True CONFIG_OK True)\<lparr>alloc_bfd_data := None\<rparr>) = None \<and>
   CONFIG_TEST_BIT \<notin> debug example_process \<and>
   start_bfd example_build ((example_env True CONFIG_OK True)\<lparr>alloc_bfd_data := None\<rparr>) None
     example_process = Exit 1"
proof -
  have h: "alloc_bfd_data ((example_env True CONFIG_OK True)\<lparr>alloc_bfd_data := None\<rparr>) = None"
    "CONFIG_TEST_BIT \<notin> debug example_process"
    by simp_all
  from start_bfd_alloc_failure_exits_fatal [OF h] show ?thesis
    by (simp add: KEEPALIVED_EXIT_FATAL_def)
qed

text \<open>
  Claim C3.  \<^verbatim>\<open>open_pipe\<close> returns -1 exactly when \<^verbatim>\<open>pipe2\<close> fails and 0 otherwise.  When
  \<^verbatim>\<open>pipe2\<close> gives two distinct descriptors, both are open with exactly \<^verbatim>\<open>O_CLOEXEC\<close> and
  \<^verbatim>\<open>O_NONBLOCK\<close>, on the read and the write end of the new pipe, and no other descriptor
  changes; a write through the write end never blocks, and with no room in the pipe it
  fails with \<^verbatim>\<open>EAGAIN\<close>.  \<^verbatim>\<open>open_bfd_pipes\<close> returns \<^verbatim>\<open>false\<close> when a pipe it is built
  with cannot be created; when both pipes are created, \<^verbatim>\<open>bfd_vrrp_event_pipe\<close> and
  \<^verbatim>\<open>bfd_checker_event_pipe\<close> hold their descriptors, each open with both flags.
\<close>

theorem open_pipe_nonblocking_cloexec:
  "(fst (open_pipe reply t arr) = - 1 \<longleftrightarrow> reply = Pipe2_failed) \<and>
   (fst (open_pipe reply t arr) = 0 \<longleftrightarrow> reply \<noteq> Pipe2_failed) \<and>
   (\<forall>r w p. reply = Pipe2_ok r w p \<and> r \<noteq> w \<longrightarrow>
      (\<exists>t'. open_pipe reply t arr = (0, (r, w), t') \<and>
            t' r = Some (Pipe_read p, {O_CLOEXEC, O_NONBLOCK}) \<and>
            t' w = Some (Pipe_write p, {O_CLOEXEC, O_NONBLOCK}) \<and>
            (\<forall>fd. fd \<noteq> r \<and> fd \<noteq> w \<longrightarrow> t' fd = t fd) \<and>
            (\<forall>room n. pipe_write (snd (the (t' w))) room n \<noteq> Write_blocks) \<and>
            (\<forall>n. 0 < n \<longrightarrow> pipe_write (snd (the (t' w))) 0 n = Write_EAGAIN))) \<and>
   (with_vrrp b \<and> reply_vrrp = Pipe2_failed \<longrightarrow>
      fst (open_bfd_pipes b reply_vrrp reply_checker s) = False) \<and>
   (with_lvs b \<and> reply_checker = Pipe2_failed \<longrightarrow>
      fst (open_bfd_pipes b reply_vrrp reply_checker s) = False) \<and>
   (\<forall>r1 w1 p1 r2 w2 p2.
      with_vrrp b \<and> with_lvs b \<and> reply_vrrp = Pipe2_ok r1 w1 p1 \<and>
      reply_checker = Pipe2_ok r2 w2 p2 \<and> distinct [r1, w1, r2, w2] \<longrightarrow>
      (\<exists>s'. open_bfd_pipes b reply_vrrp reply_checker s = (True, s') \<and>
            bfd_vrrp_event_pipe s' = (r1, w1) \<and> bfd_checker_event_pipe s' = (r2, w2) \<and>
            fds s' r1 = Some (Pipe_read p1, {O_CLOEXEC, O_NONBLOCK}) \<and>
            fds s' w1 = Some (Pipe_write p1, {O_CLOEXEC, O_NONBLOCK}) \<and>
            fds s' r2 = Some (Pipe_read p2, {O_CLOEXEC, O_NONBLOCK}) \<and>
            fds s' w2 = Some (Pipe_write p2, {O_CLOEXEC, O_NONBLOCK})))"
proof (intro conjI)
  show "fst (open_pipe reply t arr) = - 1 \<longleftrightarrow> reply = Pipe2_failed"
    by (cases reply) (simp_all add: open_pipe_failed open_pipe_ok)
  show "fst (open_pipe reply t arr) = 0 \<longleftrightarrow> reply \<noteq> Pipe2_failed"
    by (cases reply) (simp_all add: open_pipe_failed open_pipe_ok)
  show "\<forall>r w p. reply = Pipe2_ok r w p \<and> r \<noteq> w \<longrightarrow>
      (\<exists>t'. open_pipe reply t arr = (0, (r, w), t') \<and>
            t' r = Some (Pipe_read p, {O_CLOEXEC, O_NONBLOCK}) \<and>
            t' w = Some (Pipe_write p, {O_CLOEXEC, O_NONBLOCK}) \<and>
            (\<forall>fd. fd \<noteq> r \<and> fd \<noteq> w \<longrightarrow> t' fd = t fd) \<and>
            (\<forall>room n. pipe_write (snd (the (t' w))) room n \<noteq> Write_blocks) \<and>
            (\<forall>n. 0 < n \<longrightarrow> pipe_write (snd (the (t' w))) 0 n = Write_EAGAIN))"
    by (simp add: open_pipe_ok pipe_write_def)
  show "with_vrrp b \<and> reply_vrrp = Pipe2_failed \<longrightarrow>
      fst (open_bfd_pipes b reply_vrrp reply_checker s) = False"
    by (simp add: open_bfd_pipes_def open_pipe_failed)
  show "with_lvs b \<and> reply_checker = Pipe2_failed \<longrightarrow>
      fst (open_bfd_pipes b reply_vrrp reply_checker s) = False"
    by (cases reply_vrrp) (simp_all add: open_bfd_pipes_def open_pipe_failed open_pipe_ok Let_def)
  show "\<forall>r1 w1 p1 r2 w2 p2.
      with_vrrp b \<and> with_lvs b \<and> reply_vrrp = Pipe2_ok r1 w1 p1 \<and>
      reply_checker = Pipe2_ok r2 w2 p2 \<and> distinct [r1, w1, r2, w2] \<longrightarrow>
      (\<exists>s'. open_bfd_pipes b reply_vrrp reply_checker s = (True, s') \<and>
            bfd_vrrp_event_pipe s' = (r1, w1) \<and> bfd_checker_event_pipe s' = (r2, w2) \<and>
            fds s' r1 = Some (Pipe_read p1, {O_CLOEXEC, O_NONBLOCK}) \<and>
            fds s' w1 = Some (Pipe_write p1, {O_CLOEXEC, O_NONBLOCK}) \<and>
            fds s' r2 = Some (Pipe_read p2, {O_CLOEXEC, O_NONBLOCK}) \<and>
            fds s' w2 = Some (Pipe_write p2, {O_CLOEXEC, O_NONBLOCK}))"
    by (auto simp: open_bfd_pipes_def open_pipe_ok Let_def)
qed

theorem open_pipe_nonblocking_cloexec_witness:
  "open_pipe (Pipe2_ok 3 4 0) Map.empty (- 1, - 1) =
     (0, (3, 4), [3 \<mapsto> (Pipe_read 0, {O_CLOEXEC, O_NONBLOCK}),
                  4 \<mapsto> (Pipe_write 0, {O_CLOEXEC, O_NONBLOCK})]) \<and>
   pipe_write {O_CLOEXEC, O_NONBLOCK} 0 20 = Write_EAGAIN \<and>
   fst (open_pipe Pipe2_failed Map.empty (- 1, - 1)) = - 1"
proof -
  note t = open_pipe_nonblocking_cloexec [of "Pipe2_ok 3 4 0" Map.empty "(- 1, - 1)"
      example_build Pipe2_failed Pipe2_failed example_process]
  note u = open_pipe_nonblocking_cloexec [of Pipe2_failed Map.empty "(- 1, - 1)"
      example_build Pipe2_failed Pipe2_failed example_process]
  have "open_pipe (Pipe2_ok 3 4 0) Map.empty (- 1, - 1) =
     (0, (3, 4), [3 \<mapsto> (Pipe_read 0, {O_CLOEXEC, O_NONBLOCK}),
                  4 \<mapsto> (Pipe_write 0, {O_CLOEXEC, O_NONBLOCK})])"
    by (simp add: open_pipe_ok)
  moreover from t have "pipe_write {O_CLOEXEC, O_NONBLOCK} 0 20 = Write_EAGAIN"
    by (simp add: open_pipe_ok)
  moreover from u have "fst (open_pipe Pipe2_failed Map.empty (- 1, - 1)) = - 1" by simp
  ultimately show ?thesis by simp
qed

text \<open>
  Claim C4.  Whatever state the process is in, each signal handler of the BFD child only
  adds one event at the end of the master's queue: \<^verbatim>\<open>sigreload_bfd\<close> the event of
  \<^verbatim>\<open>reload_bfd_thread\<close>, \<^verbatim>\<open>sigend_bfd\<close> the terminate event (and nothing without a
  master), \<^verbatim>\<open>sigdump_bfd\<close> the event of \<^verbatim>\<open>print_bfd_thread\<close> after a line in the log.
  A handler that returns leaves the configuration data, the \<^verbatim>\<open>reload\<close> flag, the debug
  bits, the descriptors, the event pipes and the signal dispositions as they were, and
  the events already queued in their order.

  In the loop of the scheduler the queue is processed between handlers: a fetch with no
  function in flight takes the first event, and the completion of the event of
  \<^verbatim>\<open>reload_bfd_thread\<close> is the reload.  While a function is in flight, however many of
  the three signal handlers are called and however often the loop would fetch, the same
  function stays in flight, the daemon state stays as it was, and the events of the
  signals are queued behind those already there.  The loop ends only by a fetch of the
  terminate event with no function in flight; and any step other than a completion
  leaves the daemon state as it was and starts a function only when none is in flight.
\<close>

theorem signal_handlers_only_enqueue:
  "(\<forall>q. master s = Some q \<longrightarrow>
      sigreload_bfd s = Return (s\<lparr>master := Some (q @ [Thread_event Reload_bfd_thread])\<rparr>) \<and>
      sigend_bfd s = Return (s\<lparr>master := Some (q @ [Terminate_event])\<rparr>) \<and>
      sigdump_bfd s =
        Return (s\<lparr>syslog := syslog s @ [''Printing BFD data for process(%d) on signal''],
                  master := Some (q @ [Thread_event Print_bfd_thread])\<rparr>)) \<and>
   (master s = None \<longrightarrow> sigend_bfd s = Return s) \<and>
   (\<forall>h s'. h \<in> {Sigreload_bfd, Sigend_bfd, Sigdump_bfd} \<and> call_handler h s = Return s' \<longrightarrow>
      bfd_data s' = bfd_data s \<and> global_data s' = global_data s \<and>
      old_bfd_data s' = old_bfd_data s \<and> old_global_data s' = old_global_data s \<and>
      reload s' = reload s \<and> debug s' = debug s \<and> fds s' = fds s \<and>
      bfd_vrrp_event_pipe s' = bfd_vrrp_event_pipe s \<and>
      bfd_checker_event_pipe s' = bfd_checker_event_pipe s \<and>
      signal_handlers s' = signal_handlers s \<and>
      (\<exists>evs. length evs \<le> 1 \<and> master s' = map_option (\<lambda>q. q @ evs) (master s))) \<and>
   (\<forall>f q. in_flight ls = None \<and> master (proc ls) = Some (Thread_event f # q) \<longrightarrow>
      loop_step b e Fetch ls =
        Return (Inl \<lparr>proc = (proc ls)\<lparr>master := Some q\<rparr>, in_flight = Some f\<rparr>)) \<and>
   (in_flight ls = Some Reload_bfd_thread \<longrightarrow>
      loop_step b e Complete ls =
        (case reload_bfd_thread b e (proc ls) of
           Exit st \<Rightarrow> Exit st
         | Segv \<Rightarrow> Segv
         | Return s' \<Rightarrow> Return (Inl \<lparr>proc = s', in_flight = None\<rparr>))) \<and>
   (\<forall>f q. in_flight ls = Some f \<and> master (proc ls) = Some q \<and>
          list_all arrives_in_flight ins \<longrightarrow>
      (\<exists>ls' evs. loop_run b e ins ls = Return (Inl ls') \<and> in_flight ls' = Some f \<and>
                 master (proc ls') = Some (q @ evs) \<and>
                 same_daemon_state (proc ls') (proc ls))) \<and>
   (\<forall>inp s'. loop_step b e inp ls = Return (Inr s') \<longrightarrow>
      inp = Fetch \<and> in_flight ls = None \<and>
      (\<exists>q. master (proc ls) = Some (Terminate_event # q) \<and>
           s' = (proc ls)\<lparr>master := Some q\<rparr>)) \<and>
   (\<forall>inp ls'. loop_step b e inp ls = Return (Inl ls') \<and> inp \<noteq> Complete \<longrightarrow>
      same_daemon_state (proc ls') (proc ls) \<and>
      (in_flight ls' \<noteq> in_flight ls \<longrightarrow> inp = Fetch \<and> in_flight ls = None))"
proof -
  have handlers:
    "(\<forall>q. master s = Some q \<longrightarrow>
      sigreload_bfd s = Return (s\<lparr>master := Some (q @ [Thread_event Reload_bfd_thread])\<rparr>) \<and>
      sigend_bfd s = Return (s\<lparr>master := Some (q @ [Terminate_event])\<rparr>) \<and>
      sigdump_bfd s =
        Return (s\<lparr>syslog := syslog s @ [''Printing BFD data for process(%d) on signal''],
                  master := Some (q @ [Thread_event Print_bfd_thread])\<rparr>)) \<and>
     (master s = None \<longrightarrow> sigend_bfd s = Return s) \<and>
     (\<forall>h s'. h \<in> {Sigreload_bfd, Sigend_bfd, Sigdump_bfd} \<and> call_handler h s = Return s' \<longrightarrow>
      bfd_data s' = bfd_data s \<and> global_data s' = global_data s \<and>
      old_bfd_data s' = old_bfd_data s \<and> old_global_data s' = old_global_data s \<and>
      reload s' = reload s \<and> debug s' = debug s \<and> fds s' = fds s \<and>
      bfd_vrrp_event_pipe s' = bfd_vrrp_event_pipe s \<and>
      bfd_checker_event_pipe s' = bfd_checker_event_pipe s \<and>
      signal_handlers s' = signal_handlers s \<and>
      (\<exists>evs. length evs \<le> 1 \<and> master s' = map_option (\<lambda>q. q @ evs) (master s)))"
    using sigreload_bfd_enqueues [of s] sigend_bfd_enqueues [of s] sigdump_bfd_enqueues [of s]
      sigend_bfd_no_master [of s] call_handler_frame [of _ s]
    by blast
  have fetch:
    "\<forall>f q. in_flight ls = None \<and> master (proc ls) = Some (Thread_event f # q) \<longrightarrow>
      loop_step b e Fetch ls =
        Return (Inl \<lparr>proc = (proc ls)\<lparr>master := Some q\<rparr>, in_flight = Some f\<rparr>)"
    using loop_step_fetch [of ls _ _ b e] by blast
  have complete:
    "in_flight ls = Some Reload_bfd_thread \<longrightarrow>
      loop_step b e Complete ls =
        (case reload_bfd_thread b e (proc ls) of
           Exit st \<Rightarrow> Exit st
         | Segv \<Rightarrow> Segv
         | Return s' \<Rightarrow> Return (Inl \<lparr>proc = s', in_flight = None\<rparr>))"
    using loop_step_complete_reload [of ls b e] by blast
  have run:
    "\<forall>f q. in_flight ls = Some f \<and> master (proc ls) = Some q \<and>
          list_all arrives_in_flight ins \<longrightarrow>
      (\<exists>ls' evs. loop_run b e ins ls = Return (Inl ls') \<and> in_flight ls' = Some f \<and>
                 master (proc ls') = Some (q @ evs) \<and>
                 same_daemon_state (proc ls') (proc ls))"
    using loop_run_in_flight [of ls _ _ ins b e] by blast
  have returned:
    "\<forall>inp s'. loop_step b e inp ls = Return (Inr s') \<longrightarrow>
      inp = Fetch \<and> in_flight ls = None \<and>
      (\<exists>q. master (proc ls) = Some (Terminate_event # q) \<and>
           s' = (proc ls)\<lparr>master := Some q\<rparr>)"
    using loop_step_returned [of b e _ ls] by blast
  have other:
    "\<forall>inp ls'. loop_step b e inp ls = Return (Inl ls') \<and> inp \<noteq> Complete \<longrightarrow>
      same_daemon_state (proc ls') (proc ls) \<and>
      (in_flight ls' \<noteq> in_flight ls \<longrightarrow> inp = Fetch \<and> in_flight ls = None)"
    using loop_step_not_complete [of b e _ ls] by blast
  from handlers fetch complete run returned other show ?thesis by blast
qed

theorem signal_handlers_only_enqueue_witness:
  "master example_process = Some [] \<and>
   sigreload_bfd example_process =
     Return (example_process\<lparr>master := Some [Thread_event Reload_bfd_thread]\<rparr>) \<and>
   sigend_bfd example_process = Return (example_process\<lparr>master := Some [Terminate_event]\<rparr>) \<and>
   sigend_bfd (example_process\<lparr>master := None\<rparr>) = Return (example_process\<lparr>master := None\<rparr>) \<and>
   in_flight \<lparr>proc = example_process, in_flight = Some Print_bfd_thread\<rparr> =
     Some Print_bfd_thread \<and>
   list_all arrives_in_flight [Signal_handler Sigreload_bfd, Signal_handler Sigend_bfd, Fetch] \<and>
   loop_run example_build (example_env True CONFIG_OK True)
       [Signal_handler Sigreload_bfd, Signal_handler Sigend_bfd, Fetch]
       \<lparr>proc = example_process, in_flight = Some Print_bfd_thread\<rparr> =
     Return (Inl \<lparr>proc = example_process
                          \<lparr>master := Some [Thread_event Reload_bfd_thread, Terminate_event]\<rparr>,
                  in_flight = Some Print_bfd_thread\<rparr>) \<and>
   loop_run example_build (example_env True CONFIG_OK True)
       [Signal_handler Sigend_bfd, Complete, Fetch]
       \<lparr>proc = example_process, in_flight = Some Print_bfd_thread\<rparr> =
     Return (Inr example_process)"
proof -
  let ?e = "example_env True CONFIG_OK True"
  let ?ls = "\<lparr>proc = example_process, in_flight = Some Print_bfd_thread\<rparr>"
  let ?ins = "[Signal_handler Sigreload_bfd, Signal_handler Sigend_bfd, Fetch]"
  note t = signal_handlers_only_enqueue [of example_process ?ls example_build ?e ?ins]
  note u = signal_handlers_only_enqueue
    [of "example_process\<lparr>master := None\<rparr>" ?ls example_build ?e ?ins]
  have h: "in_flight ?ls = Some Print_bfd_thread" "master (proc ?ls) = Some []"
    "list_all arrives_in_flight ?ins"
    by simp_all
  from t h obtain ls' evs where
    r: "loop_run example_build ?e ?ins ?ls = Return (Inl ls')"
       "in_flight ls' = Some Print_bfd_thread" "master (proc ls') = Some ([] @ evs)"
       "same_daemon_state (proc ls') (proc ?ls)"
    by blast
  have run1: "loop_run example_build ?e ?ins ?ls =
     Return (Inl \<lparr>proc = example_process
                          \<lparr>master := Some [Thread_event Reload_bfd_thread, Terminate_event]\<rparr>,
                  in_flight = Some Print_bfd_thread\<rparr>)"
    by (simp add: loop_step_def sigreload_bfd_def sigend_bfd_def thread_add_event_def
                  thread_add_terminate_event_def)
  have run2: "loop_run example_build ?e [Signal_handler Sigend_bfd, Complete, Fetch] ?ls =
     Return (Inr example_process)"
    by (simp add: loop_step_def sigend_bfd_def thread_add_terminate_event_def)
  from t u h r run1 run2 show ?thesis by simp
qed

text \<open>
  Claim C5.  After \<^verbatim>\<open>bfd_signal_init\<close> the handler of \<^verbatim>\<open>SIGHUP\<close> is \<^verbatim>\<open>sigreload_bfd\<close>, that
  of \<^verbatim>\<open>SIGTERM\<close> is \<^verbatim>\<open>sigend_bfd\<close>, \<^verbatim>\<open>SIGINT\<close> is ignored under \<^verbatim>\<open>ignore_sigint\<close> and
  handled by \<^verbatim>\<open>sigend_bfd\<close> otherwise, the handler of \<^verbatim>\<open>SIGUSR1\<close> is \<^verbatim>\<open>sigdump_bfd\<close>, and
  \<^verbatim>\<open>SIGPIPE\<close> is ignored.  In a build with \<^verbatim>\<open>THREAD_DUMP\<close> the signal \<^verbatim>\<open>SIGTDUMP\<close> gets
  \<^verbatim>\<open>thread_dump_signal\<close>; no other signal and nothing else of the process changes.  With
  a master, the installed handlers queue the reload (\<^verbatim>\<open>reload_bfd_thread\<close>), the terminate
  event and the dump (\<^verbatim>\<open>print_bfd_thread\<close>).
\<close>

theorem bfd_signal_init_mapping:
  "signal_handlers (bfd_signal_init b s) SIGHUP = Handler Sigreload_bfd \<and>
   signal_handlers (bfd_signal_init b s) SIGTERM = Handler Sigend_bfd \<and>
   signal_handlers (bfd_signal_init b s) SIGINT =
     (if ignore_sigint s then SIG_IGN else Handler Sigend_bfd) \<and>
   signal_handlers (bfd_signal_init b s) SIGUSR1 = Handler Sigdump_bfd \<and>
   signal_handlers (bfd_signal_init b s) SIGPIPE = SIG_IGN \<and>
   signal_handlers (bfd_signal_init b s) SIGTDUMP =
     (if thread_dump b then Handler Thread_dump_signal else signal_handlers s SIGTDUMP) \<and>
   (\<forall>sig. sig \<notin> {SIGHUP, SIGINT, SIGTERM, SIGUSR1, SIGPIPE, SIGTDUMP} \<longrightarrow>
      signal_handlers (bfd_signal_init b s) sig = signal_handlers s sig) \<and>
   bfd_signal_init b s = s\<lparr>signal_handlers := signal_handlers (bfd_signal_init b s)\<rparr> \<and>
   (\<forall>q. master s = Some q \<longrightarrow>
      call_handler Sigreload_bfd (bfd_signal_init b s) =
        Return ((bfd_signal_init b s)\<lparr>master := Some (q @ [Thread_event Reload_bfd_thread])\<rparr>) \<and>
      call_handler Sigend_bfd (bfd_signal_init b s) =
        Return ((bfd_signal_init b s)\<lparr>master := Some (q @ [Terminate_event])\<rparr>) \<and>
      call_handler Sigdump_bfd (bfd_signal_init b s) =
        Return ((bfd_signal_init b s)
                  \<lparr>syslog := syslog s @ [''Printing BFD data for process(%d) on signal''],
                   master := Some (q @ [Thread_event Print_bfd_thread])\<rparr>))"
proof -
  have m: "master (bfd_signal_init b s) = master s" "syslog (bfd_signal_init b s) = syslog s"
    by (simp_all add: bfd_signal_init_eq)
  show ?thesis
    apply (intro conjI allI impI)
    apply (simp_all add: m sigreload_bfd_enqueues sigend_bfd_enqueues sigdump_bfd_enqueues)
    apply (simp_all add: bfd_signal_init_eq)
    done
qed

theorem bfd_signal_init_mapping_witness:
  "signal_handlers (bfd_signal_init example_build example_process) SIGHUP = Handler Sigreload_bfd \<and>
   signal_handlers (bfd_signal_init example_build example_process) SIGINT = Handler Sigend_bfd \<and>
   signal_handlers (bfd_signal_init example_build example_process) SIGCHLD = SIG_DFL \<and>
   call_handler Sigreload_bfd (bfd_signal_init example_build example_process) =
     Return ((bfd_signal_init example_build example_process)
               \<lparr>master := Some [Thread_event Reload_bfd_thread]\<rparr>)"
  using bfd_signal_init_mapping [of example_build example_process]
  by simp

text \<open>
  Claim C6.  In the child forked by \<^verbatim>\<open>start_bfd_child\<close>, for each event pipe the build
  has and the process holds (the read end only under the descriptor in element 0 of the
  array, the write end under the one in element 1): when the child's setup returns, the
  child goes on to start the engine (\<^verbatim>\<open>start_bfd\<close>) in a state in which the descriptor of
  the read end is closed, no descriptor refers to the read end of the pipe, and the write
  end is still open.
\<close>

theorem child_closes_pipe_read_ends:
  assumes "\<not> one_process_debug b" and "fork_result e = 0"
    and "bfd_child_setup b e s = Return s1"
    and "with_vrrp b \<longrightarrow>
           fds s (fst (bfd_vrrp_event_pipe s)) = Some (Pipe_read pv, flv') \<and>
           fds s (snd (bfd_vrrp_event_pipe s)) = Some (Pipe_write pv, flv) \<and>
           (\<forall>fd fl. fds s fd = Some (Pipe_read pv, fl) \<longrightarrow> fd = fst (bfd_vrrp_event_pipe s))"
    and "with_lvs b \<longrightarrow>
           fds s (fst (bfd_checker_event_pipe s)) = Some (Pipe_read pc, flc') \<and>
           fds s (snd (bfd_checker_event_pipe s)) = Some (Pipe_write pc, flc) \<and>
           (\<forall>fd fl. fds s fd = Some (Pipe_read pc, fl) \<longrightarrow> fd = fst (bfd_checker_event_pipe s))"
  shows "start_bfd_child b e s = bfd_child_engine b e (bfd_child_prepare b s1) \<and>
         (with_vrrp b \<longrightarrow>
            fds (bfd_child_prepare b s1) (fst (bfd_vrrp_event_pipe s)) = None \<and>
            (\<forall>fd fl. fds (bfd_child_prepare b s1) fd \<noteq> Some (Pipe_read pv, fl)) \<and>
            fds (bfd_child_prepare b s1) (snd (bfd_vrrp_event_pipe s)) = Some (Pipe_write pv, flv)) \<and>
         (with_lvs b \<longrightarrow>
            fds (bfd_child_prepare b s1) (fst (bfd_checker_event_pipe s)) = None \<and>
            (\<forall>fd fl. fds (bfd_child_prepare b s1) fd \<noteq> Some (Pipe_read pc, fl)) \<and>
            fds (bfd_child_prepare b s1) (snd (bfd_checker_event_pipe s)) = Some (Pipe_write pc, flc))"
proof -
  have run: "start_bfd_child b e s = bfd_child_engine b e (bfd_child_prepare b s1)"
    using assms(1-3) by (simp add: start_bfd_child_def)
  note f = bfd_child_setup_Return [OF assms(3)] bfd_child_prepare_fds
  have v: "with_vrrp b \<longrightarrow>
            fds (bfd_child_prepare b s1) (fst (bfd_vrrp_event_pipe s)) = None \<and>
            (\<forall>fd fl. fds (bfd_child_prepare b s1) fd \<noteq> Some (Pipe_read pv, fl)) \<and>
            fds (bfd_child_prepare b s1) (snd (bfd_vrrp_event_pipe s)) = Some (Pipe_write pv, flv)"
    using assms(4,5) by (auto simp: f)
  have c: "with_lvs b \<longrightarrow>
            fds (bfd_child_prepare b s1) (fst (bfd_checker_event_pipe s)) = None \<and>
            (\<forall>fd fl. fds (bfd_child_prepare b s1) fd \<noteq> Some (Pipe_read pc, fl)) \<and>
            fds (bfd_child_prepare b s1) (snd (bfd_checker_event_pipe s)) = Some (Pipe_write pc, flc)"
    using assms(4,5) by (auto simp: f)
  from run v c show ?thesis by blast
qed

theorem child_closes_pipe_read_ends_witness:
  "bfd_child_setup example_build (example_env True CONFIG_OK True) example_process =
     Return (example_process\<lparr>fds := [4 \<mapsto> (Pipe_write 0, {O_CLOEXEC, O_NONBLOCK}),
                                     6 \<mapsto> (Pipe_write 1, {O_CLOEXEC, O_NONBLOCK})]\<rparr>) \<and>
   fds (bfd_child_prepare example_build
         (example_process\<lparr>fds := [4 \<mapsto> (Pipe_write 0, {O_CLOEXEC, O_NONBLOCK}),
                                  6 \<mapsto> (Pipe_write 1, {O_CLOEXEC, O_NONBLOCK})]\<rparr>)) 3 = None \<and>
   fds (bfd_child_prepare example_build
         (example_process\<lparr>fds := [4 \<mapsto> (Pipe_write 0, {O_CLOEXEC, O_NONBLOCK}),
                                  6 \<mapsto> (Pipe_write 1, {O_CLOEXEC, O_NONBLOCK})]\<rparr>)) 4 =
     Some (Pipe_write 0, {O_CLOEXEC, O_NONBLOCK})"
proof -
  let ?e = "example_env True CONFIG_OK True"
  let ?s1 = "example_process\<lparr>fds := [4 \<mapsto> (Pipe_write 0, {O_CLOEXEC, O_NONBLOCK}),
                                     6 \<mapsto> (Pipe_write 1, {O_CLOEXEC, O_NONBLOCK})]\<rparr>"
  have h1: "\<not> one_process_debug example_build" by simp
  have h2: "fork_result ?e = 0" by simp
  have h3: "bfd_child_setup example_build ?e example_process = Return ?s1"
    by (simp add: bfd_child_setup_def Let_def close_fd_def thread_make_master_def fun_eq_iff)
  have h4: "with_vrrp example_build \<longrightarrow>
      fds example_process (fst (bfd_vrrp_event_pipe example_process)) =
        Some (Pipe_read 0, {O_CLOEXEC, O_NONBLOCK}) \<and>
      fds example_process (snd (bfd_vrrp_event_pipe example_process)) =
        Some (Pipe_write 0, {O_CLOEXEC, O_NONBLOCK}) \<and>
      (\<forall>fd fl. fds example_process fd = Some (Pipe_read 0, fl) \<longrightarrow>
         fd = fst (bfd_vrrp_event_pipe example_process))"
    by (auto split: if_splits)
  have h5: "with_lvs example_build \<longrightarrow>
      fds example_process (fst (bfd_checker_event_pipe example_process)) =
        Some (Pipe_read 1, {O_CLOEXEC, O_NONBLOCK}) \<and>
      fds example_process (snd (bfd_checker_event_pipe example_process)) =
        Some (Pipe_write 1, {O_CLOEXEC, O_NONBLOCK}) \<and>
      (\<forall>fd fl. fds example_process fd = Some (Pipe_read 1, fl) \<longrightarrow>
         fd = fst (bfd_checker_event_pipe example_process))"
    by (auto split: if_splits)
  from child_closes_pipe_read_ends [OF h1 h2 h3 h4 h5] h3 show ?thesis by simp
qed

text \<open>
  Claim C7.  \<^verbatim>\<open>set_tmp_dir\<close> sets \<^verbatim>\<open>tmp_dir\<close> to the value of \<^verbatim>\<open>TMPDIR\<close> when that is set
  and begins with \<open>/\<close>, and to \<^verbatim>\<open>KA_TMP_DIR\<close> when it is unset, empty or begins with
  another character; nothing else of the environment matters.  For strings without a NUL,
  \<^verbatim>\<open>make_tmp_filename\<close> returns \<^verbatim>\<open>tmp_dir\<close>, \<open>/\<close> and \<^verbatim>\<open>file_name\<close> concatenated.
\<close>

theorem tmp_dir_only_from_TMPDIR:
  "(\<forall>v. environ ''TMPDIR'' = Some v \<and> first_char v = CHR ''/'' \<longrightarrow>
        set_tmp_dir KA_TMP_DIR environ = v) \<and>
   (environ ''TMPDIR'' = None \<longrightarrow> set_tmp_dir KA_TMP_DIR environ = KA_TMP_DIR) \<and>
   (\<forall>v. environ ''TMPDIR'' = Some v \<and> first_char v \<noteq> CHR ''/'' \<longrightarrow>
        set_tmp_dir KA_TMP_DIR environ = KA_TMP_DIR) \<and>
   first_char [] \<noteq> CHR ''/'' \<and> (\<forall>c cs. first_char (c # cs) = c) \<and>
   (\<forall>environ'. environ' ''TMPDIR'' = environ ''TMPDIR'' \<longrightarrow>
        set_tmp_dir KA_TMP_DIR environ' = set_tmp_dir KA_TMP_DIR environ) \<and>
   (\<forall>dir. NUL \<notin> set dir \<and> NUL \<notin> set file_name \<longrightarrow>
        make_tmp_filename (Some dir) file_name = Some (dir @ ''/'' @ file_name))"
proof (intro conjI allI impI)
  fix dir
  assume "NUL \<notin> set dir \<and> NUL \<notin> set file_name"
  then show "make_tmp_filename (Some dir) file_name = Some (dir @ ''/'' @ file_name)"
    by (simp add: make_tmp_filename_concat)
qed (simp_all add: set_tmp_dir_def getenv_def first_char_def NUL_def)

theorem tmp_dir_only_from_TMPDIR_witness:
  "set_tmp_dir ''/tmp'' [''TMPDIR'' \<mapsto> ''/run/x''] = ''/run/x'' \<and>
   set_tmp_dir ''/tmp'' [''TMPDIR'' \<mapsto> ''run/x''] = ''/tmp'' \<and>
   set_tmp_dir ''/tmp'' [''TMPDIR'' \<mapsto> []] = ''/tmp'' \<and>
   set_tmp_dir ''/tmp'' Map.empty = ''/tmp'' \<and>
   make_tmp_filename (Some ''/run/x'') ''bfd.data'' = Some ''/run/x/bfd.data''"
proof -
  have "set_tmp_dir ''/tmp'' [''TMPDIR'' \<mapsto> ''/run/x''] = ''/run/x''"
    using tmp_dir_only_from_TMPDIR [of "[''TMPDIR'' \<mapsto> ''/run/x'']" "''/tmp''" "''bfd.data''"]
    by (simp add: first_char_def)
  moreover have "set_tmp_dir ''/tmp'' [''TMPDIR'' \<mapsto> ''run/x''] = ''/tmp''"
    using tmp_dir_only_from_TMPDIR [of "[''TMPDIR'' \<mapsto> ''run/x'']" "''/tmp''" "''bfd.data''"]
    by (simp add: first_char_def)
  moreover have "set_tmp_dir ''/tmp'' [''TMPDIR'' \<mapsto> []] = ''/tmp''"
    using tmp_dir_only_from_TMPDIR [of "[''TMPDIR'' \<mapsto> []]" "''/tmp''" "''bfd.data''"]
    by (simp add: first_char_def NUL_def)
  moreover have "set_tmp_dir ''/tmp'' Map.empty = ''/tmp''"
    using tmp_dir_only_from_TMPDIR [of Map.empty "''/tmp''" "''bfd.data''"]
    by simp
  moreover have "make_tmp_filename (Some ''/run/x'') ''bfd.data'' = Some ''/run/x/bfd.data''"
    using tmp_dir_only_from_TMPDIR [of Map.empty "''/tmp''" "''bfd.data''"]
    by (simp add: NUL_def)
  ultimately show ?thesis by simp
qed

text \<open>
  Claim C8.  For buffers \<open>s1\<close> and \<open>s2\<close> that hold at least \<open>n\<close> bytes,
  \<^verbatim>\<open>memcmp_constant_time(s1, s2, n)\<close> returns, and it returns 0 exactly when the first
  \<open>n\<close> bytes of the two buffers are pairwise equal; for \<open>n = 0\<close> that is always.
\<close>

theorem memcmp_constant_time_zero_iff_equal:
  assumes "n \<le> length s1" and "n \<le> length s2"
  shows "\<exists>r. memcmp_constant_time s1 s2 n = Some r \<and> (r = 0 \<longleftrightarrow> take n s1 = take n s2) \<and>
             (n = 0 \<longrightarrow> r = 0)"
proof -
  from memcmp_constant_time_loop_zero [OF assms, of 0 0] obtain r where
    r: "memcmp_constant_time_loop s1 s2 n 0 0 = Some r"
    and z: "r = 0 \<longleftrightarrow> (\<forall>j. j < n \<longrightarrow> s1 ! j = s2 ! j)" by auto
  have "take n s1 = take n s2 \<longleftrightarrow> (\<forall>j. j < n \<longrightarrow> s1 ! j = s2 ! j)"
    using assms by (auto simp: list_eq_iff_nth_eq)
  then show ?thesis using r z by (auto simp: memcmp_constant_time_def uint_0_iff)
qed

theorem memcmp_constant_time_zero_iff_equal_witness:
  "(2::nat) \<le> length [1, 2, 3 :: byte] \<and> (2::nat) \<le> length [1, 2, 4 :: byte] \<and>
   memcmp_constant_time [1, 2, 3] [1, 2, 4] 2 = Some 0 \<and>
   memcmp_constant_time [1, 2, 3] [1, 2, 4] 3 = Some 7"
proof -
  have h: "(2::nat) \<le> length [1, 2, 3 :: byte]" "(2::nat) \<le> length [1, 2, 4 :: byte]"
    by simp_all
  from memcmp_constant_time_zero_iff_equal [OF h]
  have "memcmp_constant_time [1, 2, 3] [1, 2, 4] 2 = Some 0" by auto
  moreover have "memcmp_constant_time [1, 2, 3] [1, 2, 4] 3 = Some 7"
    by (simp add: memcmp_constant_time_def memcmp_constant_time_loop.simps)
  ultimately show ?thesis using h by simp
qed

text \<open>
  Claim C9.  The two variants of \<^verbatim>\<open>in_csum\<close> are the same function: for every byte
  order of the host, buffer, length, initial sum and accumulator pointer they return the
  same checksum and leave the same value in the accumulator (or both read outside the
  buffer).  For a length within the buffer they return, and they store the accumulator
  exactly when the pointer is not NULL.
\<close>

theorem in_csum_variants_agree:
  "in_csum_memcpy le addr len csum acc = in_csum_alias le addr len csum acc \<and>
   (len \<le> length addr \<longrightarrow>
      (\<exists>r a. in_csum_alias le addr len csum acc = Some (r, a) \<and> (a = None \<longleftrightarrow> acc = None)))"
proof
  have "in_csum_memcpy_loop le addr 0 len csum =
        map_option (\<lambda>(w', n', s'). (2 * w', n', s')) (in_csum_alias_loop le addr 0 len csum)"
    using in_csum_loops_agree [of le addr 0 len csum] by simp
  then show "in_csum_memcpy le addr len csum acc = in_csum_alias le addr len csum acc"
    by (cases "in_csum_alias_loop le addr 0 len csum")
       (auto simp: in_csum_memcpy_def in_csum_alias_def Let_def split: option.splits)
next
  show "len \<le> length addr \<longrightarrow>
      (\<exists>r a. in_csum_alias le addr len csum acc = Some (r, a) \<and> (a = None \<longleftrightarrow> acc = None))"
    using in_csum_alias_total [of len addr le csum acc] by blast
qed

theorem in_csum_variants_agree_witness:
  "in_csum_alias True [1, 2, 3] 3 0 (Some 0) = Some (65019, Some 516) \<and>
   in_csum_memcpy True [1, 2, 3] 3 0 (Some 0) = Some (65019, Some 516) \<and>
   in_csum_memcpy False [1, 2, 3] 3 0 None = Some (64509, None)"
proof -
  have a: "in_csum_alias True [1, 2, 3] 3 0 (Some 0) = Some (65019, Some 516)"
    by (simp add: in_csum_alias_def in_csum_alias_loop.simps load16_def load8_def htons_def
                  Let_def)
  have b: "in_csum_alias False [1, 2, 3] 3 0 None = Some (64509, None)"
    by (simp add: in_csum_alias_def in_csum_alias_loop.simps load16_def load8_def htons_def
                  Let_def)
  from a b in_csum_variants_agree [of True "[1, 2, 3]" 3 0 "Some 0"]
    in_csum_variants_agree [of False "[1, 2, 3]" 3 0 None]
  show ?thesis by simp
qed

text \<open>
  Claim C10.  For a capacity \<open>len \<ge> 1\<close> that the buffer \<open>dst\<close> has, and a NUL-terminated
  \<open>src\<close>, \<^verbatim>\<open>strcpy_safe_impl\<close> returns, changes no byte of \<open>dst\<close> from index \<open>len\<close> on,
  and leaves a NUL at index \<open>len - 1\<close> at the latest: \<open>dst\<close> holds the string of \<open>src\<close>
  (its bytes and the NUL) when that is shorter than \<open>len\<close>, and the first \<open>len - 1\<close>
  bytes of \<open>src\<close> followed by a NUL otherwise.
\<close>

theorem strcpy_safe_impl_terminated:
  assumes "1 \<le> len" and "len \<le> SIZE_MAX" and "len \<le> length dst" and "0 \<in> set src"
  shows "\<exists>d. strcpy_safe_impl dst src len = Some d \<and>
             length d = length dst \<and> drop len d = drop len dst \<and>
             d ! (len - 1) = 0 \<and> length (c_string d) < len \<and>
             (if length (c_string src) < len
              then c_string d = c_string src \<and>
                   take (length (c_string src) + 1) d = c_string src @ [0]
              else c_string d = take (len - 1) src \<and>
                   take len d = take (len - 1) src @ [0])"
proof (cases "length (c_string src) < len")
  case True
  from strcpy_safe_impl_fits [OF assms True] show ?thesis
    using True by auto
next
  case False
  from strcpy_safe_impl_truncates [OF assms False] obtain d where
    d: "strcpy_safe_impl dst src len = Some d" "length d = length dst"
       "drop len d = drop len dst" "d ! (len - 1) = 0"
       "take len d = take (len - 1) src @ [0]" "c_string d = take (len - 1) src"
    by blast
  have "length (c_string d) \<le> len - 1" using d(6) by simp
  then have "length (c_string d) < len" using assms(1) by arith
  then show ?thesis using d False by auto
qed

theorem strcpy_safe_impl_terminated_witness:
  "(1::nat) \<le> 4 \<and> (4::nat) \<le> SIZE_MAX \<and> (4::nat) \<le> length [9, 9, 9, 9, 9 :: byte] \<and>
   (0::byte) \<in> set [1, 2, 3, 4, 5, 6, 0] \<and>
   strcpy_safe_impl [9, 9, 9, 9, 9] [1, 2, 3, 4, 5, 6, 0] 4 = Some [1, 2, 3, 0, 9]"
proof -
  have h: "(1::nat) \<le> 4" "(4::nat) \<le> SIZE_MAX" "(4::nat) \<le> length [9, 9, 9, 9, 9 :: byte]"
    "(0::byte) \<in> set [1, 2, 3, 4, 5, 6, 0]"
    by (simp_all add: SIZE_MAX_def)
  from strcpy_safe_impl_terminated [OF h] obtain d where
    d: "strcpy_safe_impl [9, 9, 9, 9, 9] [1, 2, 3, 4, 5, 6, 0] 4 = Some d"
       "length d = 5" "drop 4 d = [9]" "take 4 d = [1, 2, 3, 0]"
    by (auto simp: c_string_def)
  have "d = take 4 d @ drop 4 d" by simp
  then have "d = [1, 2, 3, 0, 9]" using d by simp
  then show ?thesis using d h by simp
qed

end
